theory Spec2Isabelle
  imports Main
begin

section \<open>Strings\<close>

text \<open>
  A Python \<open>str\<close> is modelled as a \<open>string\<close> whose characters are the code points
  below 256. \<open>str.strip()\<close> and \<open>str.split()\<close> without arguments work on
  whitespace; these are the code points below 256 for which \<open>str.isspace\<close> holds.
\<close>

definition whitespace :: "char list" where
  "whitespace =
     [CHR 0x09, CHR 0x0A, CHR 0x0B, CHR 0x0C, CHR 0x0D, CHR 0x1C, CHR 0x1D, CHR 0x1E,
      CHR 0x1F, CHR 0x20, CHR 0x85, CHR 0xA0]"

definition isspace :: "char \<Rightarrow> bool" where
  "isspace c = (c \<in> set whitespace)"

text \<open>\<open>s.strip()\<close>\<close>

definition str_strip :: "string \<Rightarrow> string" where
  "str_strip s = rev (dropWhile isspace (rev (dropWhile isspace s)))"

text \<open>
  \<open>s.split()\<close>: the maximal runs of characters that are not whitespace, in order.
  The first argument is the run read so far.
\<close>

fun split_acc :: "string \<Rightarrow> string \<Rightarrow> string list" where
  "split_acc cur [] = (if cur = [] then [] else [cur])"
| "split_acc cur (c # cs) =
     (if isspace c then (if cur = [] then split_acc [] cs else cur # split_acc [] cs)
      else split_acc (cur @ [c]) cs)"

definition str_split :: "string \<Rightarrow> string list" where
  "str_split s = split_acc [] s"

text \<open>\<open>os.path.join(a, b)\<close> of \<open>posixpath\<close>, for two components.\<close>

definition path_join :: "string \<Rightarrow> string \<Rightarrow> string" where
  "path_join a b =
     (if b \<noteq> [] \<and> hd b = CHR ''/'' then b
      else if a = [] \<or> last a = CHR ''/'' then a @ b
      else a @ ''/'' @ b)"

text \<open>
  The truth value of an optional string (\<open>None\<close> and the empty string are false), and
  the text an f-string puts for it.
\<close>

fun truthy :: "string option \<Rightarrow> bool" where
  "truthy None = False"
| "truthy (Some s) = (s \<noteq> [])"

fun fmt :: "string option \<Rightarrow> string" where
  "fmt None = ''None''"
| "fmt (Some s) = s"

section \<open>The process and its environment\<close>

text \<open>
  What \<open>subprocess.run(command, shell=True, check=True, text=True, capture_output=True,
  cwd=cwd)\<close> comes back with: the command ran and exited with a return code, its standard
  output and its standard error (\<open>Completed\<close>; with \<open>check=True\<close> a non-zero
  return code is raised as \<open>CalledProcessError\<close>, which carries the same three values),
  or \<open>subprocess.run\<close> raised another exception (\<open>Raised\<close>: the working directory
  is missing, the output cannot be decoded).
\<close>

datatype proc_result = Completed int string string | Raised string

text \<open>
  The external collaborators, over a type \<open>'w\<close> of states of the outside world (the
  file system, the repositories, the remote service):
  \<^item> \<open>subprocess_run w command cwd\<close>: the result and the world the command leaves;
  \<^item> \<open>os_makedirs w d\<close>: \<open>os.makedirs(d, exist_ok=True)\<close>, \<open>None\<close> when it raises
    \<open>OSError\<close>;
  \<^item> \<open>os_path_exists w p\<close>: \<open>os.path.exists(p)\<close>;
  \<^item> \<open>os_path_abspath p\<close>: \<open>os.path.abspath(p)\<close>; the process never changes its
    working directory.
\<close>

record 'w os =
  subprocess_run :: "'w \<Rightarrow> string \<Rightarrow> string option \<Rightarrow> proc_result \<times> 'w"
  os_makedirs :: "'w \<Rightarrow> string \<Rightarrow> 'w option"
  os_path_exists :: "'w \<Rightarrow> string \<Rightarrow> bool"
  os_path_abspath :: "string \<Rightarrow> string"

text \<open>The two module-level URL variables.\<close>

record globals =
  mainGitHubURL :: string
  subGitHubURL :: string

definition shipped :: globals where
  "shipped =
     \<lparr>mainGitHubURL =
        ''https://github.com/SE1020-IT2070-OOP-DSA-25/project-Bashitha-Weerapperuma.git'',
      subGitHubURL = ''https://github.com/Bashitha-Weerapperuma/AF-SE1020-Production.git''\<rparr>"

text \<open>
  An issued command: the command line, the working directory and the result. The state of
  a run is the outside world, the texts written by \<open>print\<close> in order, and the history
  of the commands handed to \<open>subprocess.run\<close> in order.
\<close>

type_synonym event = "string \<times> string option \<times> proc_result"

record 'w state =
  world :: 'w
  printed :: "string list"
  issued :: "event list"

text \<open>
  How a run ends early: \<open>sys.exit(n)\<close>, or an exception nobody catches (the interpreter
  then prints the traceback and exits with status 1).
\<close>

datatype exit = SystemExit int | Uncaught string

fun exit_code :: "exit \<Rightarrow> int" where
  "exit_code (SystemExit n) = n"
| "exit_code (Uncaught x) = 1"

type_synonym ('w, 'a) prog = "'w state \<Rightarrow> (exit + 'a) \<times> 'w state"

definition ret :: "'a \<Rightarrow> ('w, 'a) prog" where
  "ret x st = (Inr x, st)"

text \<open>Statement sequencing: what follows runs only when what precedes came back.\<close>

definition then_do :: "('w, 'a) prog \<Rightarrow> ('a \<Rightarrow> ('w, 'b) prog) \<Rightarrow> ('w, 'b) prog" where
  "then_do m k st = (case m st of (Inl e, st') \<Rightarrow> (Inl e, st') | (Inr x, st') \<Rightarrow> k x st')"

definition print :: "string \<Rightarrow> ('w, unit) prog" where
  "print s st = (Inr (), st\<lparr>printed := printed st @ [s]\<rparr>)"

definition sys_exit :: "int \<Rightarrow> ('w, 'a) prog" where
  "sys_exit n st = (Inl (SystemExit n), st)"

definition makedirs :: "'w os \<Rightarrow> string \<Rightarrow> ('w, unit) prog" where
  "makedirs os d st =
     (case os_makedirs os (world st) d of
        None \<Rightarrow> (Inl (Uncaught ''OSError''), st)
      | Some w \<Rightarrow> (Inr (), st\<lparr>world := w\<rparr>))"

definition path_exists :: "'w os \<Rightarrow> string \<Rightarrow> ('w, bool) prog" where
  "path_exists os p st = (Inr (os_path_exists os (world st) p), st)"

section \<open>The functions of \<open>git_repo_manager.py\<close>\<close>

definition run_command :: "'w os \<Rightarrow> string \<Rightarrow> string option \<Rightarrow> ('w, string) prog" where
  "run_command os command cwd st =
     (case subprocess_run os (world st) command cwd of
        (Completed rc out err, w) \<Rightarrow>
          (if rc = 0
           then (Inr (str_strip out),
                 st\<lparr>world := w, issued := issued st @ [(command, cwd, Completed rc out err)]\<rparr>)
           else then_do (print (''Error executing command: '' @ command)) (\<lambda>_.
                then_do (print (''Error message: '' @ err)) (\<lambda>_.
                sys_exit 1))
                  (st\<lparr>world := w, issued := issued st @ [(command, cwd, Completed rc out err)]\<rparr>))
      | (Raised x, w) \<Rightarrow>
          (Inl (Uncaught x), st\<lparr>world := w, issued := issued st @ [(command, cwd, Raised x)]\<rparr>))"

text \<open>The block of \<open>setup_repositories\<close> under \<open># Use global URLs if no URLs are provided\<close>.\<close>

definition use_global_url :: "string \<Rightarrow> string \<Rightarrow> string option \<Rightarrow> ('w, string option) prog" where
  "use_global_url label global_url url =
     (if \<not> truthy url \<and> global_url \<noteq> []
      then then_do (print (''Using '' @ label @ '' repository URL from global variable: '' @ global_url))
             (\<lambda>_. ret (Some global_url))
      else ret url)"

text \<open>The block under \<open># Clone or initialize main repository\<close>.\<close>

definition clone_or_initialize_main_repository ::
    "'w os \<Rightarrow> string option \<Rightarrow> string \<Rightarrow> ('w, unit) prog" where
  "clone_or_initialize_main_repository os main_repo_url main_repo_dir =
     then_do (path_exists os (path_join main_repo_dir ''.git'')) (\<lambda>ex.
       if ex then print (''Main repository already exists in '' @ main_repo_dir)
       else if truthy main_repo_url
       then then_do (print (''Cloning main repository from '' @ fmt main_repo_url @ ''...'')) (\<lambda>_.
            then_do (run_command os (''git clone '' @ fmt main_repo_url @ '' '' @ main_repo_dir) None) (\<lambda>_.
            ret ()))
       else then_do (print (''Initializing new main repository in '' @ main_repo_dir @ ''...'')) (\<lambda>_.
            then_do (run_command os ''git init'' (Some main_repo_dir)) (\<lambda>_.
            ret ())))"

text \<open>The block under \<open># Clone sub repository\<close>.\<close>

definition clone_sub_repository :: "'w os \<Rightarrow> string option \<Rightarrow> string \<Rightarrow> ('w, unit) prog" where
  "clone_sub_repository os sub_repo_url sub_repo_dir =
     then_do (path_exists os (path_join sub_repo_dir ''.git'')) (\<lambda>ex.
       if ex then print (''Sub repository already exists in '' @ sub_repo_dir)
       else if truthy sub_repo_url
       then then_do (print (''Cloning sub repository from '' @ fmt sub_repo_url @ ''...'')) (\<lambda>_.
            then_do (run_command os (''git clone '' @ fmt sub_repo_url @ '' '' @ sub_repo_dir) None) (\<lambda>_.
            ret ()))
       else then_do (print ''Error: No sub repository URL provided'') (\<lambda>_.
            sys_exit 1))"

definition setup_repositories ::
    "globals \<Rightarrow> 'w os \<Rightarrow> string option \<Rightarrow> string option \<Rightarrow> string \<Rightarrow> string
      \<Rightarrow> ('w, string \<times> string) prog" where
  "setup_repositories g os main_repo_url sub_repo_url main_repo_dir sub_repo_dir =
     then_do (makedirs os main_repo_dir) (\<lambda>_.
     then_do (makedirs os sub_repo_dir) (\<lambda>_.
     then_do (use_global_url ''main'' (mainGitHubURL g) main_repo_url) (\<lambda>main_repo_url.
     then_do (use_global_url ''sub'' (subGitHubURL g) sub_repo_url) (\<lambda>sub_repo_url.
     then_do (clone_or_initialize_main_repository os main_repo_url main_repo_dir) (\<lambda>_.
     then_do (clone_sub_repository os sub_repo_url sub_repo_dir) (\<lambda>_.
     ret (main_repo_dir, sub_repo_dir)))))))"

definition add_sub_repo_as_remote :: "'w os \<Rightarrow> string \<Rightarrow> string \<Rightarrow> string \<Rightarrow> ('w, unit) prog" where
  "add_sub_repo_as_remote os main_repo_dir sub_repo_dir remote_name =
     (let sub_repo_abs_path = os_path_abspath os sub_repo_dir in
      then_do (run_command os ''git remote'' (Some main_repo_dir)) (\<lambda>remotes.
        if remote_name \<in> set (str_split remotes)
        then then_do (print (''Remote '' @ [CHR 0x27] @ remote_name @ [CHR 0x27]
                               @ '' already exists, updating URL...'')) (\<lambda>_.
             then_do (run_command os (''git remote set-url '' @ remote_name @ '' '' @ sub_repo_abs_path)
                        (Some main_repo_dir)) (\<lambda>_.
             ret ()))
        else then_do (print (''Adding sub repository as remote '' @ [CHR 0x27] @ remote_name
                               @ [CHR 0x27] @ ''...'')) (\<lambda>_.
             then_do (run_command os (''git remote add '' @ remote_name @ '' '' @ sub_repo_abs_path)
                        (Some main_repo_dir)) (\<lambda>_.
             ret ()))))"

definition commit_changes :: "'w os \<Rightarrow> string \<Rightarrow> string \<Rightarrow> ('w, string) prog" where
  "commit_changes os repo_dir msg =
     then_do (print (''Committing changes in '' @ repo_dir @ ''...'')) (\<lambda>_.
     then_do (run_command os ''git add .'' (Some repo_dir)) (\<lambda>_.
     then_do (run_command os (''git commit -m '' @ [CHR 0x27] @ msg @ [CHR 0x27]) (Some repo_dir))
       (\<lambda>result.
     then_do (print result) (\<lambda>_.
     ret result))))"

definition push_to_repo :: "'w os \<Rightarrow> string \<Rightarrow> string \<Rightarrow> string \<Rightarrow> ('w, string) prog" where
  "push_to_repo os source_dir remote br =
     then_do (print (''Pushing changes from '' @ source_dir @ '' to '' @ remote @ ''/'' @ br @ ''...''))
       (\<lambda>_.
     then_do (run_command os (''git push '' @ remote @ '' '' @ br) (Some source_dir)) (\<lambda>result.
     then_do (print result) (\<lambda>_.
     ret result)))"

definition pull_from_repo :: "'w os \<Rightarrow> string \<Rightarrow> string \<Rightarrow> string \<Rightarrow> ('w, string) prog" where
  "pull_from_repo os target_dir remote br =
     then_do (print (''Pulling changes into '' @ target_dir @ '' from '' @ remote @ ''/'' @ br @ ''...''))
       (\<lambda>_.
     then_do (run_command os (''git pull '' @ remote @ '' '' @ br) (Some target_dir)) (\<lambda>result.
     then_do (print result) (\<lambda>_.
     ret result)))"

definition merge_branches :: "'w os \<Rightarrow> string \<Rightarrow> string option \<Rightarrow> string \<Rightarrow> ('w, string) prog" where
  "merge_branches os repo_dir src_branch target_branch =
     then_do (print (''Merging '' @ fmt src_branch @ '' into '' @ target_branch @ '' in '' @ repo_dir
                       @ ''...'')) (\<lambda>_.
     then_do (run_command os (''git checkout '' @ target_branch) (Some repo_dir)) (\<lambda>_.
     then_do (run_command os (''git merge '' @ fmt src_branch) (Some repo_dir)) (\<lambda>result.
     then_do (print result) (\<lambda>_.
     ret result))))"

text \<open>
  \<open>sync_repos\<close> calls \<open>pull_from_repo(sub_repo_dir)\<close>: the remote and the branch of the
  pull are that function's defaults, \<open>"origin"\<close> and \<open>"main"\<close>.
\<close>

definition sync_repos :: "'w os \<Rightarrow> string \<Rightarrow> string \<Rightarrow> string \<Rightarrow> string \<Rightarrow> ('w, unit) prog" where
  "sync_repos os main_repo_dir sub_repo_dir remote_name br =
     then_do (push_to_repo os main_repo_dir remote_name br) (\<lambda>_.
     then_do (run_command os (''git checkout '' @ br) (Some sub_repo_dir)) (\<lambda>_.
     then_do (pull_from_repo os sub_repo_dir ''origin'' ''main'') (\<lambda>_.
     ret ())))"

text \<open>
  The parsed command line. \<open>--action\<close> is one of six choices and defaults to
  \<open>setup\<close>; \<open>--main-repo\<close>, \<open>--sub-repo\<close> and \<open>--source-branch\<close> are \<open>None\<close>
  when absent; the others have string defaults.
\<close>

datatype action = Setup | Commit | Push | Pull | Merge | Sync

record args =
  args_main_repo :: "string option"
  args_sub_repo :: "string option"
  args_action :: action
  args_message :: string
  args_branch :: string
  args_source_branch :: "string option"
  args_main_dir :: string
  args_sub_dir :: string

definition main :: "globals \<Rightarrow> 'w os \<Rightarrow> args \<Rightarrow> ('w, unit) prog" where
  "main g os a =
     (let main_repo = (if truthy (args_main_repo a) then args_main_repo a else Some (mainGitHubURL g));
          sub_repo = (if truthy (args_sub_repo a) then args_sub_repo a else Some (subGitHubURL g))
      in case args_action a of
        Setup \<Rightarrow>
          if \<not> truthy sub_repo
          then then_do (print (''Error: No sub repository URL provided. Please either set the ''
                 @ ''global subGitHubURL or provide --sub-repo'')) (\<lambda>_.
               sys_exit 1)
          else then_do (setup_repositories g os main_repo sub_repo (args_main_dir a) (args_sub_dir a))
                 (\<lambda>(main_repo_dir, sub_repo_dir).
               then_do (add_sub_repo_as_remote os main_repo_dir sub_repo_dir ''subrepo'') (\<lambda>_.
               print ''Repositories setup complete!''))
      | Commit \<Rightarrow>
          then_do (commit_changes os (args_main_dir a) (args_message a)) (\<lambda>_. ret ())
      | Push \<Rightarrow>
          then_do (push_to_repo os (args_main_dir a) ''subrepo'' (args_branch a)) (\<lambda>_. ret ())
      | Pull \<Rightarrow>
          then_do (pull_from_repo os (args_main_dir a) ''origin'' (args_branch a)) (\<lambda>_. ret ())
      | Merge \<Rightarrow>
          if \<not> truthy (args_source_branch a)
          then then_do (print ''Error: --source-branch is required for merge operation'') (\<lambda>_.
               sys_exit 1)
          else then_do (merge_branches os (args_main_dir a) (args_source_branch a) (args_branch a))
                 (\<lambda>_. ret ())
      | Sync \<Rightarrow>
          sync_repos os (args_main_dir a) (args_sub_dir a) ''subrepo'' (args_branch a))"

section \<open>Reading the history of a run\<close>

text \<open>
  A command succeeded when it exited with return code zero. \<open>ev_exit\<close> is the way
  \<open>run_command\<close> ends the run on a command that did not.
\<close>

fun ev_ok :: "event \<Rightarrow> bool" where
  "ev_ok (c, d, Completed rc out err) = (rc = 0)"
| "ev_ok (c, d, Raised x) = False"

fun ev_exit :: "event \<Rightarrow> exit option" where
  "ev_exit (c, d, Completed rc out err) = (if rc = 0 then None else Some (SystemExit 1))"
| "ev_exit (c, d, Raised x) = Some (Uncaught x)"

fun ev_command :: "event \<Rightarrow> string \<times> string option" where
  "ev_command (c, d, res) = (c, d)"

text \<open>
  The commands \<open>es\<close> a run issued and its result \<open>r\<close> fit the fatal-error policy
  when every command but the last succeeded, and a last command that failed ended the run
  with that command's exit.
\<close>

definition stops_at_failure :: "event list \<Rightarrow> exit + 'a \<Rightarrow> bool" where
  "stops_at_failure es r =
     (list_all ev_ok (butlast es) \<and>
      (list_all ev_ok es \<or> (case ev_exit (last es) of None \<Rightarrow> False | Some e \<Rightarrow> r = Inl e)))"

definition fatal_stop :: "('w, 'a) prog \<Rightarrow> bool" where
  "fatal_stop m =
     (\<forall>st r st'. m st = (r, st') \<longrightarrow>
        (\<exists>es. issued st' = issued st @ es \<and> stops_at_failure es r))"

text \<open>Every command a run issues satisfies \<open>Q\<close>.\<close>

definition issues_only :: "(event \<Rightarrow> bool) \<Rightarrow> ('w, 'a) prog \<Rightarrow> bool" where
  "issues_only Q m =
     (\<forall>st r st'. m st = (r, st') \<longrightarrow> (\<exists>es. issued st' = issued st @ es \<and> list_all Q es))"

section \<open>A small simulated environment\<close>

text \<open>
  A world to run the model in: the directories that exist, the directories that hold a
  repository, the remotes (repository, name, URL) and whether there is anything to commit.
  Its commands do what the real tool does in the simplest cases: \<open>git clone\<close> and
  \<open>git init\<close> create the repository, \<open>git remote\<close> lists the names line by line,
  \<open>git remote add\<close> refuses a name that exists, \<open>git remote set-url\<close> refuses one
  that does not, \<open>git commit\<close> fails when there is nothing to commit,
  \<open>git checkout\<close> fails outside a repository. Every other command succeeds and prints
  nothing.
\<close>

record demo_world =
  dw_dirs :: "string list"
  dw_repos :: "string list"
  dw_remotes :: "(string \<times> string \<times> string) list"
  dw_pending :: bool

fun remote_in :: "string \<Rightarrow> string \<times> string \<times> string \<Rightarrow> bool" where
  "remote_in d (r, n, u) = (r = d)"

fun remote_is :: "string \<Rightarrow> string \<Rightarrow> string \<times> string \<times> string \<Rightarrow> bool" where
  "remote_is d k (r, n, u) = (r = d \<and> n = k)"

fun remote_line :: "string \<times> string \<times> string \<Rightarrow> string" where
  "remote_line (r, n, u) = n @ [CHR 0x0A]"

fun remote_entry :: "string \<times> string \<times> string \<Rightarrow> string \<times> string" where
  "remote_entry (r, n, u) = (n, u)"

fun remote_set_url ::
    "string \<Rightarrow> string \<Rightarrow> string \<Rightarrow> string \<times> string \<times> string \<Rightarrow> string \<times> string \<times> string" where
  "remote_set_url d k v (r, n, u) = (if r = d \<and> n = k then (r, n, v) else (r, n, u))"

definition demo_run :: "demo_world \<Rightarrow> string \<Rightarrow> string option \<Rightarrow> proc_result \<times> demo_world" where
  "demo_run w command cwd =
     (let ts = str_split command; d = (case cwd of None \<Rightarrow> ''.'' | Some d \<Rightarrow> d) in
      if length ts = 4 \<and> take 2 ts = [''git'', ''clone'']
      then (if ts ! 3 \<in> set (dw_repos w)
            then (Completed 128 [] ''fatal: destination path already exists'', w)
            else (Completed 0 [] [],
                  w\<lparr>dw_repos := dw_repos w @ [ts ! 3],
                    dw_remotes := dw_remotes w @ [(ts ! 3, ''origin'', ts ! 2)]\<rparr>))
      else if ts = [''git'', ''init'']
      then (Completed 0 ''Initialized empty Git repository'' [],
            w\<lparr>dw_repos := (if d \<in> set (dw_repos w) then dw_repos w else dw_repos w @ [d])\<rparr>)
      else if ts = [''git'', ''remote'']
      then (Completed 0 (concat (map remote_line (filter (remote_in d) (dw_remotes w)))) [], w)
      else if length ts = 5 \<and> take 3 ts = [''git'', ''remote'', ''add'']
      then (if list_ex (remote_is d (ts ! 3)) (dw_remotes w)
            then (Completed 3 [] ''error: remote already exists'', w)
            else (Completed 0 [] [], w\<lparr>dw_remotes := dw_remotes w @ [(d, ts ! 3, ts ! 4)]\<rparr>))
      else if length ts = 5 \<and> take 3 ts = [''git'', ''remote'', ''set-url'']
      then (if list_ex (remote_is d (ts ! 3)) (dw_remotes w)
            then (Completed 0 [] [],
                  w\<lparr>dw_remotes := map (remote_set_url d (ts ! 3) (ts ! 4)) (dw_remotes w)\<rparr>)
            else (Completed 2 [] ''error: No such remote'', w))
      else if take 2 ts = [''git'', ''commit'']
      then (if dw_pending w then (Completed 0 ''1 file changed'' [], w\<lparr>dw_pending := False\<rparr>)
            else (Completed 1 ''nothing to commit, working tree clean'' [], w))
      else if length ts = 3 \<and> take 2 ts = [''git'', ''checkout'']
      then (if d \<in> set (dw_repos w) then (Completed 0 [] [], w)
            else (Completed 128 [] ''fatal: not a git repository'', w))
      else (Completed 0 [] [], w))"

definition demo_makedirs :: "demo_world \<Rightarrow> string \<Rightarrow> demo_world option" where
  "demo_makedirs w d =
     (if d = [] then None
      else if d \<in> set (dw_dirs w) then Some w
      else Some (w\<lparr>dw_dirs := dw_dirs w @ [d]\<rparr>))"

definition demo_exists :: "demo_world \<Rightarrow> string \<Rightarrow> bool" where
  "demo_exists w p =
     (p \<in> set (dw_dirs w) \<or> p \<in> set (map (\<lambda>d. path_join d ''.git'') (dw_repos w)))"

definition demo_abspath :: "string \<Rightarrow> string" where
  "demo_abspath p = (if p \<noteq> [] \<and> hd p = CHR ''/'' then p else ''/work/'' @ p)"

definition demo_os :: "demo_world os" where
  "demo_os = \<lparr>subprocess_run = demo_run, os_makedirs = demo_makedirs,
               os_path_exists = demo_exists, os_path_abspath = demo_abspath\<rparr>"

definition demo_start :: "demo_world state" where
  "demo_start =
     \<lparr>world = \<lparr>dw_dirs = [], dw_repos = [], dw_remotes = [], dw_pending = False\<rparr>,
      printed = [], issued = []\<rparr>"

text \<open>
  The state after \<open>setup_repositories\<close> ran once from the start, with no URL given
  and the shipped globals: both repositories were cloned.
\<close>

definition demo_provisioned :: "demo_world state" where
  "demo_provisioned =
     snd (setup_repositories shipped demo_os None None ''main_repo'' ''sub_repo'' demo_start)"

text \<open>
  The remotes of the main repository, as pairs of a name and a URL; the state after
  provisioning in which the main repository also has a remote named \<open>subrepo2\<close>; and
  the states after linking the sub repository as \<open>subrepo\<close> from there once and twice.
\<close>

definition demo_remotes_of :: "demo_world \<Rightarrow> (string \<times> string) list" where
  "demo_remotes_of w = map remote_entry (filter (remote_in ''main_repo'') (dw_remotes w))"

definition demo_linkable :: "demo_world state" where
  "demo_linkable =
     demo_provisioned
       \<lparr>world := (world demo_provisioned)
          \<lparr>dw_remotes := dw_remotes (world demo_provisioned) @
             [(''main_repo'', ''subrepo2'', ''/elsewhere'')]\<rparr>\<rparr>"

definition demo_linked :: "demo_world state" where
  "demo_linked = snd (add_sub_repo_as_remote demo_os ''main_repo'' ''sub_repo'' ''subrepo'' demo_linkable)"

definition demo_relinked :: "demo_world state" where
  "demo_relinked = snd (add_sub_repo_as_remote demo_os ''main_repo'' ''sub_repo'' ''subrepo'' demo_linked)"

text \<open>
  States in which both directories exist and only the main, or only the sub, directory
  holds a repository.
\<close>

definition demo_main_only :: "demo_world state" where
  "demo_main_only =
     demo_start\<lparr>world := (world demo_start)
       \<lparr>dw_dirs := [''main_repo'', ''sub_repo''], dw_repos := [''main_repo'']\<rparr>\<rparr>"

definition demo_sub_only :: "demo_world state" where
  "demo_sub_only =
     demo_start\<lparr>world := (world demo_start)
       \<lparr>dw_dirs := [''main_repo'', ''sub_repo''], dw_repos := [''sub_repo'']\<rparr>\<rparr>"

text \<open>The command line with every option at its default, but for the action.\<close>

definition demo_args :: "action \<Rightarrow> args" where
  "demo_args act =
     \<lparr>args_main_repo = None, args_sub_repo = None, args_action = act,
      args_message = ''Update from script'', args_branch = ''main'',
      args_source_branch = None, args_main_dir = ''main_repo'', args_sub_dir = ''sub_repo''\<rparr>"

section \<open>Sequencing and the fatal-error policy\<close>

lemmas prog_defs = then_do_def ret_def print_def sys_exit_def makedirs_def path_exists_def

lemma run_command_ok:
  "subprocess_run os (world st) command cwd = (Completed 0 out err, w) \<Longrightarrow>
   run_command os command cwd st =
     (Inr (str_strip out),
      st\<lparr>world := w, issued := issued st @ [(command, cwd, Completed 0 out err)]\<rparr>)"
  by (simp add: run_command_def)

lemma run_command_failed:
  "subprocess_run os (world st) command cwd = (Completed rc out err, w) \<Longrightarrow> rc \<noteq> 0 \<Longrightarrow>
   run_command os command cwd st =
     (Inl (SystemExit 1),
      st\<lparr>world := w,
        printed := printed st @ [''Error executing command: '' @ command, ''Error message: '' @ err],
        issued := issued st @ [(command, cwd, Completed rc out err)]\<rparr>)"
  by (simp add: run_command_def prog_defs)

lemma then_do_Inl: "m st = (Inl e, st') \<Longrightarrow> then_do m k st = (Inl e, st')"
  by (simp add: then_do_def)

text \<open>One command: what it adds to the history, and when it comes back.\<close>

lemma run_command_event:
  assumes "run_command os command cwd st = (r, st')"
  shows "\<exists>res. issued st' = issued st @ [(command, cwd, res)] \<and>
           res = fst (subprocess_run os (world st) command cwd) \<and>
           world st' = snd (subprocess_run os (world st) command cwd) \<and>
           ((\<exists>x. r = Inr x) = ev_ok (command, cwd, res)) \<and>
           (case ev_exit (command, cwd, res) of None \<Rightarrow> printed st' = printed st
            | Some e \<Rightarrow> r = Inl e)"
  using assms
  by (auto simp: run_command_def prog_defs split: prod.splits proc_result.splits if_splits)

lemma list_all_butlast: "list_all P xs \<Longrightarrow> list_all P (butlast xs)"
  by (auto simp: list_all_iff dest: in_set_butlastD)

named_theorems fatal_stop_intros

lemma fatal_stop_ret [fatal_stop_intros]: "fatal_stop (ret x)"
  by (simp add: fatal_stop_def stops_at_failure_def ret_def)

lemma fatal_stop_print [fatal_stop_intros]: "fatal_stop (print s)"
  by (auto simp: fatal_stop_def stops_at_failure_def print_def)

lemma fatal_stop_sys_exit [fatal_stop_intros]: "fatal_stop (sys_exit n)"
  by (auto simp: fatal_stop_def stops_at_failure_def sys_exit_def)

lemma fatal_stop_makedirs [fatal_stop_intros]: "fatal_stop (makedirs os d)"
  by (auto simp: fatal_stop_def stops_at_failure_def makedirs_def split: option.splits)

lemma fatal_stop_path_exists [fatal_stop_intros]: "fatal_stop (path_exists os p)"
  by (auto simp: fatal_stop_def stops_at_failure_def path_exists_def)

lemma fatal_stop_run_command [fatal_stop_intros]: "fatal_stop (run_command os command cwd)"
  by (auto simp: fatal_stop_def stops_at_failure_def run_command_def then_do_def print_def
      sys_exit_def split: prod.splits proc_result.splits if_splits)

lemma fatal_stop_then_do [fatal_stop_intros]:
  assumes m: "fatal_stop m" and k: "\<And>x. fatal_stop (k x)"
  shows "fatal_stop (then_do m k)"
  unfolding fatal_stop_def
proof (intro allI impI)
  fix st r st'
  assume run: "then_do m k st = (r, st')"
  obtain r1 st1 where m1: "m st = (r1, st1)" by (cases "m st")
  from m m1 obtain es1 where es1: "issued st1 = issued st @ es1" "stops_at_failure es1 r1"
    unfolding fatal_stop_def by blast
  show "\<exists>es. issued st' = issued st @ es \<and> stops_at_failure es r"
  proof (cases r1)
    case (Inl e)
    with run m1 have "r = Inl e" "st' = st1" by (simp_all add: then_do_def)
    with es1 Inl show ?thesis by (auto simp: stops_at_failure_def split: option.splits)
  next
    case (Inr x)
    with run m1 have k1: "k x st1 = (r, st')" by (simp add: then_do_def)
    from k [of x] k1 obtain es2 where es2: "issued st' = issued st1 @ es2" "stops_at_failure es2 r"
      unfolding fatal_stop_def by blast
    from Inr es1 have ok1: "list_all ev_ok es1"
      by (auto simp: stops_at_failure_def split: option.splits)
    have "issued st' = issued st @ (es1 @ es2)" using es1 es2 by simp
    moreover have "stops_at_failure (es1 @ es2) r"
    proof (cases "es2 = []")
      case True
      with ok1 show ?thesis by (simp add: stops_at_failure_def list_all_butlast)
    next
      case False
      with ok1 es2 show ?thesis by (auto simp: stops_at_failure_def butlast_append)
    qed
    ultimately show ?thesis by blast
  qed
qed

lemma fatal_stop_if [fatal_stop_intros]:
  "fatal_stop m \<Longrightarrow> fatal_stop n \<Longrightarrow> fatal_stop (if b then m else n)"
  by simp

lemma fatal_stop_case_prod [fatal_stop_intros]:
  "(\<And>x y. fatal_stop (k x y)) \<Longrightarrow> fatal_stop (case p of (x, y) \<Rightarrow> k x y)"
  by (cases p) simp

lemma fatal_stop_use_global_url: "fatal_stop (use_global_url l gu u)"
  unfolding use_global_url_def by (intro fatal_stop_intros)

lemma fatal_stop_main_block: "fatal_stop (clone_or_initialize_main_repository os u d)"
  unfolding clone_or_initialize_main_repository_def by (intro fatal_stop_intros)

lemma fatal_stop_sub_block: "fatal_stop (clone_sub_repository os u d)"
  unfolding clone_sub_repository_def by (intro fatal_stop_intros)

lemma fatal_stop_setup_repositories: "fatal_stop (setup_repositories g os mu su md sd)"
  unfolding setup_repositories_def
  by (intro fatal_stop_intros fatal_stop_use_global_url fatal_stop_main_block fatal_stop_sub_block)

lemma fatal_stop_add_sub_repo_as_remote: "fatal_stop (add_sub_repo_as_remote os md sd n)"
  unfolding add_sub_repo_as_remote_def Let_def by (intro fatal_stop_intros)

lemma fatal_stop_commit_changes: "fatal_stop (commit_changes os d m)"
  unfolding commit_changes_def by (intro fatal_stop_intros)

lemma fatal_stop_push_to_repo: "fatal_stop (push_to_repo os d r b)"
  unfolding push_to_repo_def by (intro fatal_stop_intros)

lemma fatal_stop_pull_from_repo: "fatal_stop (pull_from_repo os d r b)"
  unfolding pull_from_repo_def by (intro fatal_stop_intros)

lemma fatal_stop_merge_branches: "fatal_stop (merge_branches os d s t)"
  unfolding merge_branches_def by (intro fatal_stop_intros)

lemma fatal_stop_sync_repos: "fatal_stop (sync_repos os md sd n b)"
  unfolding sync_repos_def
  by (intro fatal_stop_intros fatal_stop_push_to_repo fatal_stop_pull_from_repo)

lemma fatal_stop_main: "fatal_stop (main g os a)"
  unfolding main_def Let_def
  by (cases "args_action a")
     (simp_all only: action.case,
      (intro fatal_stop_intros fatal_stop_setup_repositories fatal_stop_add_sub_repo_as_remote
        fatal_stop_commit_changes fatal_stop_push_to_repo fatal_stop_pull_from_repo
        fatal_stop_merge_branches fatal_stop_sync_repos)+)

section \<open>The command runner\<close>

text \<open>
  What stripping does: the text is some whitespace, the stripped text, and some whitespace
  again, and the stripped text neither starts nor ends with whitespace.
\<close>

lemma str_strip_trims:
  "\<exists>pre post. s = pre @ str_strip s @ post \<and> list_all isspace pre \<and> list_all isspace post \<and>
     (str_strip s = [] \<or> (\<not> isspace (hd (str_strip s)) \<and> \<not> isspace (last (str_strip s))))"
proof -
  let ?t = "dropWhile isspace s"
  let ?x = "rev (dropWhile isspace (rev ?t))"
  let ?pre = "takeWhile isspace s"
  let ?post = "rev (takeWhile isspace (rev ?t))"
  have x: "str_strip s = ?x" by (simp add: str_strip_def)
  have t: "?t = ?x @ ?post"
    by (metis rev_append rev_rev_ident takeWhile_dropWhile_id)
  have s: "s = ?pre @ ?x @ ?post"
    using t by (metis takeWhile_dropWhile_id)
  have pre: "list_all isspace ?pre"
    by (auto simp: list_all_iff dest: set_takeWhileD)
  have post: "list_all isspace ?post"
    by (auto simp: list_all_iff dest: set_takeWhileD)
  have ends: "?x = [] \<or> (\<not> isspace (hd ?x) \<and> \<not> isspace (last ?x))"
  proof (cases "?x = []")
    case True
    then show ?thesis by simp
  next
    case False
    then have ne: "dropWhile isspace (rev ?t) \<noteq> []" by simp
    then have "\<not> isspace (hd (dropWhile isspace (rev ?t)))" by (rule hd_dropWhile)
    with ne have l: "\<not> isspace (last ?x)" by (simp add: last_rev)
    have g: "\<And>xs ys zs :: string. xs = ys @ zs \<Longrightarrow> ys \<noteq> [] \<Longrightarrow> xs \<noteq> [] \<and> hd ys = hd xs"
      by auto
    from g [OF t False] have "?t \<noteq> []" and h: "hd ?x = hd ?t" by blast+
    then have "\<not> isspace (hd ?t)" by (simp add: hd_dropWhile)
    with h have "\<not> isspace (hd ?x)" by simp
    with l show ?thesis by simp
  qed
  from s pre post ends show ?thesis unfolding x by blast
qed

lemma isspace_code_points:
  "isspace c = (of_char c \<in> {9, 10, 11, 12, 13, 28, 29, 30, 31, 32, 133, 160 :: nat})"
proof -
  have e: "\<And>n :: nat. (c = char_of n) = (of_char c = take_bit 8 n)"
    by (metis char_of_eq_iff)
  have w: "whitespace = map char_of [9, 10, 11, 12, 13, 28, 29, 30, 31, 32, 133, 160 :: nat]"
    by code_simp
  show ?thesis
    unfolding isspace_def w by (simp add: e take_bit_eq_mod)
qed

text \<open>
  Claim C1. When the external command exits with status zero, \<open>run_command\<close> returns
  its standard output with the surrounding whitespace trimmed: the output is some
  whitespace, the returned text and some whitespace again, and the returned text neither
  starts nor ends with whitespace, where whitespace is the code points 9 to 13, 28 to 32,
  133 and 160. When the command exits with another status, \<open>run_command\<close> prints the
  command and the captured standard error and ends the process with exit code 1, and
  whatever statement \<open>k\<close> follows the call is not run. In every run of \<open>main\<close>, all
  issued commands but the last succeeded, and a last command that failed ended the run
  with its exit: nothing is issued after a failure.
\<close>

theorem run_command_fatal_on_failure:
  assumes cmd: "subprocess_run os (world st) command cwd = (Completed rc out err, w)"
    and whole: "main g os a st0 = (r, st1)"
  shows "(rc = 0 \<longrightarrow>
            run_command os command cwd st =
              (Inr (str_strip out),
               st\<lparr>world := w, issued := issued st @ [(command, cwd, Completed rc out err)]\<rparr>)) \<and>
         (\<exists>pre post. out = pre @ str_strip out @ post \<and>
            list_all isspace pre \<and> list_all isspace post \<and>
            (str_strip out = [] \<or>
             (\<not> isspace (hd (str_strip out)) \<and> \<not> isspace (last (str_strip out))))) \<and>
         isspace c = (of_char c \<in> {9, 10, 11, 12, 13, 28, 29, 30, 31, 32, 133, 160 :: nat}) \<and>
         (rc \<noteq> 0 \<longrightarrow>
            run_command os command cwd st =
              (Inl (SystemExit 1),
               st\<lparr>world := w,
                 printed := printed st @
                   [''Error executing command: '' @ command, ''Error message: '' @ err],
                 issued := issued st @ [(command, cwd, Completed rc out err)]\<rparr>) \<and>
            then_do (run_command os command cwd) k st =
              (Inl (SystemExit 1),
               st\<lparr>world := w,
                 printed := printed st @
                   [''Error executing command: '' @ command, ''Error message: '' @ err],
                 issued := issued st @ [(command, cwd, Completed rc out err)]\<rparr>)) \<and>
         (\<exists>es. issued st1 = issued st0 @ es \<and> stops_at_failure es r)"
proof (intro conjI impI)
  assume "rc = 0"
  with cmd show "run_command os command cwd st =
      (Inr (str_strip out),
       st\<lparr>world := w, issued := issued st @ [(command, cwd, Completed rc out err)]\<rparr>)"
    by (simp add: run_command_ok)
next
  show "\<exists>pre post. out = pre @ str_strip out @ post \<and>
            list_all isspace pre \<and> list_all isspace post \<and>
            (str_strip out = [] \<or>
             (\<not> isspace (hd (str_strip out)) \<and> \<not> isspace (last (str_strip out))))"
    by (rule str_strip_trims)
next
  show "isspace c = (of_char c \<in> {9, 10, 11, 12, 13, 28, 29, 30, 31, 32, 133, 160 :: nat})"
    by (rule isspace_code_points)
next
  assume "rc \<noteq> 0"
  with cmd show failed: "run_command os command cwd st =
      (Inl (SystemExit 1),
       st\<lparr>world := w,
         printed := printed st @
           [''Error executing command: '' @ command, ''Error message: '' @ err],
         issued := issued st @ [(command, cwd, Completed rc out err)]\<rparr>)"
    by (rule run_command_failed)
  then show "then_do (run_command os command cwd) k st =
      (Inl (SystemExit 1),
       st\<lparr>world := w,
         printed := printed st @
           [''Error executing command: '' @ command, ''Error message: '' @ err],
         issued := issued st @ [(command, cwd, Completed rc out err)]\<rparr>)"
    by (rule then_do_Inl)
next
  from fatal_stop_main whole show "\<exists>es. issued st1 = issued st0 @ es \<and> stops_at_failure es r"
    unfolding fatal_stop_def by blast
qed

text \<open>
  In the simulated environment, \<open>git remote\<close> in the provisioned main repository prints
  \<open>origin\<close> and a line feed, and \<open>run_command\<close> returns \<open>origin\<close>; \<open>git commit\<close>
  with nothing to commit exits with status 1, and the \<open>commit\<close> action ends with exit
  code 1 after two commands.
\<close>

theorem run_command_fatal_on_failure_witness:
  "subprocess_run demo_os (world demo_provisioned) ''git remote'' (Some ''main_repo'') =
     (Completed 0 (''origin'' @ [CHR 0x0A]) [], world demo_provisioned) \<and>
   run_command demo_os ''git remote'' (Some ''main_repo'') demo_provisioned =
     (Inr ''origin'',
      demo_provisioned\<lparr>world := world demo_provisioned,
        issued := issued demo_provisioned @
          [(''git remote'', Some ''main_repo'', Completed 0 (''origin'' @ [CHR 0x0A]) [])]\<rparr>) \<and>
   str_strip ([CHR 0x20, CHR 0x09] @ ''a b'' @ [CHR 0x20, CHR 0x0D, CHR 0x0A]) = ''a b'' \<and>
   subprocess_run demo_os (world demo_start) ''git commit'' (Some ''main_repo'') =
     (Completed 1 ''nothing to commit, working tree clean'' [], world demo_start) \<and>
   run_command demo_os ''git commit'' (Some ''main_repo'') demo_start =
     (Inl (SystemExit 1),
      demo_start\<lparr>world := world demo_start,
        printed := printed demo_start @
          [''Error executing command: '' @ ''git commit'', ''Error message: '' @ []],
        issued := issued demo_start @
          [(''git commit'', Some ''main_repo'',
            Completed 1 ''nothing to commit, working tree clean'' [])]\<rparr>) \<and>
   fst (main shipped demo_os (demo_args Commit) demo_start) = Inl (SystemExit 1) \<and>
   length (issued (snd (main shipped demo_os (demo_args Commit) demo_start))) = 2 \<and>
   (\<exists>es. issued (snd (main shipped demo_os (demo_args Commit) demo_start)) =
            issued demo_start @ es \<and>
          stops_at_failure es (fst (main shipped demo_os (demo_args Commit) demo_start)))"
proof -
  have ok: "subprocess_run demo_os (world demo_provisioned) ''git remote'' (Some ''main_repo'') =
      (Completed 0 (''origin'' @ [CHR 0x0A]) [], world demo_provisioned)"
    by code_simp
  have s: "str_strip (''origin'' @ [CHR 0x0A]) = ''origin''"
    by code_simp
  have s2: "str_strip ([CHR 0x20, CHR 0x09] @ ''a b'' @ [CHR 0x20, CHR 0x0D, CHR 0x0A]) = ''a b''"
    by code_simp
  have cmd: "subprocess_run demo_os (world demo_start) ''git commit'' (Some ''main_repo'') =
      (Completed 1 ''nothing to commit, working tree clean'' [], world demo_start)"
    by code_simp
  have whole: "main shipped demo_os (demo_args Commit) demo_start =
      (fst (main shipped demo_os (demo_args Commit) demo_start),
       snd (main shipped demo_os (demo_args Commit) demo_start))"
    by simp
  have r: "fst (main shipped demo_os (demo_args Commit) demo_start) = Inl (SystemExit 1)"
    by code_simp
  have n: "length (issued (snd (main shipped demo_os (demo_args Commit) demo_start))) = 2"
    by code_simp
  note t0 = run_command_fatal_on_failure [OF ok whole, where k = ret]
  note t = run_command_fatal_on_failure [OF cmd whole, where k = ret]
  from t0 [THEN conjunct1] s
  have z: "run_command demo_os ''git remote'' (Some ''main_repo'') demo_provisioned =
     (Inr ''origin'',
      demo_provisioned\<lparr>world := world demo_provisioned,
        issued := issued demo_provisioned @
          [(''git remote'', Some ''main_repo'', Completed 0 (''origin'' @ [CHR 0x0A]) [])]\<rparr>)"
    by simp
  have a: "run_command demo_os ''git commit'' (Some ''main_repo'') demo_start =
     (Inl (SystemExit 1),
      demo_start\<lparr>world := world demo_start,
        printed := printed demo_start @
          [''Error executing command: '' @ ''git commit'', ''Error message: '' @ []],
        issued := issued demo_start @
          [(''git commit'', Some ''main_repo'',
            Completed 1 ''nothing to commit, working tree clean'' [])]\<rparr>)"
    using t by simp
  have b: "\<exists>es. issued (snd (main shipped demo_os (demo_args Commit) demo_start)) =
            issued demo_start @ es \<and>
          stops_at_failure es (fst (main shipped demo_os (demo_args Commit) demo_start))"
    using t by blast
  from ok z s2 cmd a r n b show ?thesis by blast
qed

section \<open>The sync sequence\<close>

lemma ev_exit_None: "(ev_exit ev = None) = ev_ok ev"
  by (cases ev rule: ev_ok.cases) auto

text \<open>
  Claim C2. \<open>sync_repos\<close> issues, in this order, the push of the given branch from the
  main directory to the given remote, the checkout of the given branch in the sub
  directory, and the pull into the sub directory from \<open>origin\<close> on \<open>main\<close> (whatever
  the branch parameter is). The commands of a run are a non-empty initial part of this
  sequence and every command but the last succeeded. While the commands succeed the
  sequence goes on: a run whose commands all succeeded issued all three and came back, and
  a run that stopped before stopped at a command that failed and ended with that command's
  exit, so a failure at any step keeps the later steps from running.
\<close>

theorem sync_repos_sequence:
  assumes run: "sync_repos os main_repo_dir sub_repo_dir remote_name br st = (r, st')"
  shows "\<exists>es. issued st' = issued st @ es \<and> es \<noteq> [] \<and>
           map ev_command es =
             take (length es)
               [(''git push '' @ remote_name @ '' '' @ br, Some main_repo_dir),
                (''git checkout '' @ br, Some sub_repo_dir),
                (''git pull origin main'', Some sub_repo_dir)] \<and>
           list_all ev_ok (butlast es) \<and>
           ((r = Inr ()) = (length es = 3 \<and> list_all ev_ok es)) \<and>
           (list_all ev_ok es \<longrightarrow> length es = 3 \<and> r = Inr ()) \<and>
           stops_at_failure es r"
proof -
  let ?c1 = "''git push '' @ remote_name @ '' '' @ br"
  let ?c2 = "''git checkout '' @ br"
  let ?c3 = "''git pull origin main''"
  let ?st0 = "st\<lparr>printed := printed st @
      [''Pushing changes from '' @ main_repo_dir @ '' to '' @ remote_name @ ''/'' @ br @ ''...'']\<rparr>"
  obtain r1 st1 where r1: "run_command os ?c1 (Some main_repo_dir) ?st0 = (r1, st1)"
    by (cases "run_command os ?c1 (Some main_repo_dir) ?st0")
  from run_command_event [OF r1] obtain res1 where e1:
    "issued st1 = issued st @ [(?c1, Some main_repo_dir, res1)]"
    "(\<exists>x. r1 = Inr x) = ev_ok (?c1, Some main_repo_dir, res1)"
    "case ev_exit (?c1, Some main_repo_dir, res1) of None \<Rightarrow> True | Some e \<Rightarrow> r1 = Inl e"
    by (auto split: option.splits)
  show ?thesis
  proof (cases r1)
    case (Inl e)
    with run r1 have "r = Inl e" "st' = st1"
      by (simp_all add: sync_repos_def push_to_repo_def prog_defs)
    with e1 Inl show ?thesis by (auto simp: stops_at_failure_def ev_exit_None split: option.splits)
  next
    case (Inr x1)
    let ?st1 = "st1\<lparr>printed := printed st1 @ [x1]\<rparr>"
    obtain r2 st2 where r2: "run_command os ?c2 (Some sub_repo_dir) ?st1 = (r2, st2)"
      by (cases "run_command os ?c2 (Some sub_repo_dir) ?st1")
    from run_command_event [OF r2] obtain res2 where e2:
      "issued st2 = issued st1 @ [(?c2, Some sub_repo_dir, res2)]"
      "(\<exists>x. r2 = Inr x) = ev_ok (?c2, Some sub_repo_dir, res2)"
      "case ev_exit (?c2, Some sub_repo_dir, res2) of None \<Rightarrow> True | Some e \<Rightarrow> r2 = Inl e"
      by (auto split: option.splits)
    show ?thesis
    proof (cases r2)
      case (Inl e)
      with run r1 r2 Inr have "r = Inl e" "st' = st2"
        by (simp_all add: sync_repos_def push_to_repo_def prog_defs)
      with e1 e2 Inl Inr show ?thesis by (auto simp: stops_at_failure_def ev_exit_None split: option.splits)
    next
      case x2: (Inr x2)
      let ?st2 = "st2\<lparr>printed := printed st2 @
         [''Pulling changes into '' @ sub_repo_dir @ '' from origin/main...'']\<rparr>"
      obtain r3 st3 where r3: "run_command os ?c3 (Some sub_repo_dir) ?st2 = (r3, st3)"
        by (cases "run_command os ?c3 (Some sub_repo_dir) ?st2")
      from run_command_event [OF r3] obtain res3 where e3:
        "issued st3 = issued st2 @ [(?c3, Some sub_repo_dir, res3)]"
        "(\<exists>x. r3 = Inr x) = ev_ok (?c3, Some sub_repo_dir, res3)"
        "case ev_exit (?c3, Some sub_repo_dir, res3) of None \<Rightarrow> True | Some e \<Rightarrow> r3 = Inl e"
        by (auto split: option.splits)
      show ?thesis
      proof (cases r3)
        case (Inl e)
        with run r1 r2 r3 Inr x2 have "r = Inl e" "st' = st3"
          by (simp_all add: sync_repos_def push_to_repo_def pull_from_repo_def prog_defs)
        with e1 e2 e3 Inl Inr x2 show ?thesis by (auto simp: stops_at_failure_def ev_exit_None split: option.splits)
      next
        case x3: (Inr x3)
        with run r1 r2 r3 Inr x2 have "r = Inr ()" "issued st' = issued st3"
          by (auto simp: sync_repos_def push_to_repo_def pull_from_repo_def prog_defs)
        with e1 e2 e3 Inr x2 x3 show ?thesis by (auto simp: stops_at_failure_def ev_exit_None split: option.splits)
      qed
    qed
  qed
qed

text \<open>
  In the simulated environment \<open>sync_repos\<close> with the branch \<open>dev\<close> in the provisioned
  repositories pushes and checks out \<open>dev\<close>, pulls \<open>main\<close> and comes back. From the start,
  where the sub directory holds no repository, the checkout fails and the pull is not run.
\<close>

theorem sync_repos_sequence_witness:
  "fst (sync_repos demo_os ''main_repo'' ''sub_repo'' ''subrepo'' ''dev'' demo_provisioned) = Inr () \<and>
   map ev_command (drop (length (issued demo_provisioned))
     (issued (snd (sync_repos demo_os ''main_repo'' ''sub_repo'' ''subrepo'' ''dev'' demo_provisioned)))) =
     [(''git push subrepo dev'', Some ''main_repo''),
      (''git checkout dev'', Some ''sub_repo''),
      (''git pull origin main'', Some ''sub_repo'')] \<and>
   fst (sync_repos demo_os ''main_repo'' ''sub_repo'' ''subrepo'' ''dev'' demo_start) = Inl (SystemExit 1) \<and>
   map ev_command
     (issued (snd (sync_repos demo_os ''main_repo'' ''sub_repo'' ''subrepo'' ''dev'' demo_start))) =
     [(''git push subrepo dev'', Some ''main_repo''),
      (''git checkout dev'', Some ''sub_repo'')] \<and>
   (\<exists>es. issued (snd (sync_repos demo_os ''main_repo'' ''sub_repo'' ''subrepo'' ''dev'' demo_provisioned)) =
            issued demo_provisioned @ es \<and> length es = 3 \<and> list_all ev_ok es) \<and>
   (\<exists>es. issued (snd (sync_repos demo_os ''main_repo'' ''sub_repo'' ''subrepo'' ''dev'' demo_start)) =
            issued demo_start @ es \<and> list_all ev_ok (butlast es) \<and>
          stops_at_failure es (fst (sync_repos demo_os ''main_repo'' ''sub_repo'' ''subrepo'' ''dev'' demo_start)))"
proof -
  let ?good = "sync_repos demo_os ''main_repo'' ''sub_repo'' ''subrepo'' ''dev'' demo_provisioned"
  let ?bad = "sync_repos demo_os ''main_repo'' ''sub_repo'' ''subrepo'' ''dev'' demo_start"
  have rg: "?good = (fst ?good, snd ?good)" and rb: "?bad = (fst ?bad, snd ?bad)"
    by simp_all
  have g: "fst ?good = Inr ()" by code_simp
  have gc: "map ev_command (drop (length (issued demo_provisioned)) (issued (snd ?good))) =
     [(''git push subrepo dev'', Some ''main_repo''),
      (''git checkout dev'', Some ''sub_repo''),
      (''git pull origin main'', Some ''sub_repo'')]"
    by code_simp
  have b: "fst ?bad = Inl (SystemExit 1)" by code_simp
  have bc: "map ev_command (issued (snd ?bad)) =
     [(''git push subrepo dev'', Some ''main_repo''),
      (''git checkout dev'', Some ''sub_repo'')]"
    by code_simp
  from sync_repos_sequence [OF rg] g
  have tg: "\<exists>es. issued (snd ?good) = issued demo_provisioned @ es \<and> length es = 3 \<and> list_all ev_ok es"
    by auto
  from sync_repos_sequence [OF rb]
  have tb: "\<exists>es. issued (snd ?bad) = issued demo_start @ es \<and> list_all ev_ok (butlast es) \<and>
      stops_at_failure es (fst ?bad)"
    by blast
  from g gc b bc tg tb show ?thesis by blast
qed

section \<open>Committing\<close>

text \<open>
  Claim C6. \<open>commit_changes\<close> first runs \<open>git add .\<close> in the repository and, when
  that succeeded, \<open>git commit\<close> with the given message. The result depends on the return
  code of the commit command alone: zero gives its stripped output, and any other return
  code, whatever the command printed (so also when there was nothing to commit), ends the
  process with exit code 1. After a failed commit nothing more is issued, and the world
  is the one that command left.
\<close>

theorem commit_changes_stages_then_commits:
  assumes add: "subprocess_run os (world st) ''git add .'' (Some repo_dir) = (Completed 0 o1 e1, w1)"
    and commit: "subprocess_run os w1 (''git commit -m '' @ [CHR 0x27] @ msg @ [CHR 0x27])
                   (Some repo_dir) = (Completed rc out err, w2)"
  shows "commit_changes os repo_dir msg st =
     (if rc = 0
      then (Inr (str_strip out),
            st\<lparr>world := w2,
              printed := printed st @
                [''Committing changes in '' @ repo_dir @ ''...'', str_strip out],
              issued := issued st @
                [(''git add .'', Some repo_dir, Completed 0 o1 e1),
                 (''git commit -m '' @ [CHR 0x27] @ msg @ [CHR 0x27], Some repo_dir,
                  Completed rc out err)]\<rparr>)
      else (Inl (SystemExit 1),
            st\<lparr>world := w2,
              printed := printed st @
                [''Committing changes in '' @ repo_dir @ ''...'',
                 ''Error executing command: '' @ ''git commit -m '' @ [CHR 0x27] @ msg @ [CHR 0x27],
                 ''Error message: '' @ err],
              issued := issued st @
                [(''git add .'', Some repo_dir, Completed 0 o1 e1),
                 (''git commit -m '' @ [CHR 0x27] @ msg @ [CHR 0x27], Some repo_dir,
                  Completed rc out err)]\<rparr>))"
  using add commit by (simp add: commit_changes_def run_command_def prog_defs)

text \<open>
  In the simulated environment nothing is pending at the start, \<open>git commit\<close> exits with
  status 1, and \<open>commit_changes\<close> ends the process with exit code 1.
\<close>

theorem commit_changes_stages_then_commits_witness:
  "subprocess_run demo_os (world demo_start) ''git add .'' (Some ''main_repo'') =
     (Completed 0 [] [], world demo_start) \<and>
   subprocess_run demo_os (world demo_start) (''git commit -m '' @ [CHR 0x27] @ ''fix'' @ [CHR 0x27])
     (Some ''main_repo'') =
     (Completed 1 ''nothing to commit, working tree clean'' [], world demo_start) \<and>
   fst (commit_changes demo_os ''main_repo'' ''fix'' demo_start) = Inl (SystemExit 1) \<and>
   world (snd (commit_changes demo_os ''main_repo'' ''fix'' demo_start)) = world demo_start"
proof -
  have add: "subprocess_run demo_os (world demo_start) ''git add .'' (Some ''main_repo'') =
     (Completed 0 [] [], world demo_start)"
    by code_simp
  have commit: "subprocess_run demo_os (world demo_start)
      (''git commit -m '' @ [CHR 0x27] @ ''fix'' @ [CHR 0x27]) (Some ''main_repo'') =
     (Completed 1 ''nothing to commit, working tree clean'' [], world demo_start)"
    by code_simp
  from commit_changes_stages_then_commits [OF add commit] add commit show ?thesis
    by simp
qed

lemma takeWhile_up_to: "(takeWhile (\<lambda>c. c \<noteq> q) (m @ [q]) = m) = (q \<notin> set m)"
proof
  assume "takeWhile (\<lambda>c. c \<noteq> q) (m @ [q]) = m"
  then have "set m = set (takeWhile (\<lambda>c. c \<noteq> q) (m @ [q]))" by simp
  then show "q \<notin> set m" by (auto dest: set_takeWhileD)
next
  assume "q \<notin> set m"
  then show "takeWhile (\<lambda>c. c \<noteq> q) (m @ [q]) = m"
    by (induction m) auto
qed

text \<open>
  Claim C10. The command that \<open>commit_changes\<close> hands to the command executor is the
  text \<open>git commit -m '\<close>, the message as it is, and a closing single quote. A shell
  ends a single-quoted word at the next single quote, so the word opened by the quote
  after \<open>-m\<close> (the command from its sixteenth character up to the next single quote) is
  the message exactly when the message holds no single quote.
\<close>

theorem commit_message_interpolated_verbatim:
  assumes add: "subprocess_run os (world st) ''git add .'' (Some repo_dir) = (Completed 0 o1 e1, w1)"
  shows "\<exists>command res.
           last (issued (snd (commit_changes os repo_dir msg st))) = (command, Some repo_dir, res) \<and>
           command = ''git commit -m '' @ [CHR 0x27] @ msg @ [CHR 0x27] \<and>
           ((takeWhile (\<lambda>c. c \<noteq> CHR 0x27) (drop 15 command) = msg) = (CHR 0x27 \<notin> set msg))"
proof -
  let ?q = "CHR 0x27"
  let ?command = "''git commit -m '' @ [?q] @ msg @ [?q]"
  obtain res w2 where commit: "subprocess_run os w1 ?command (Some repo_dir) = (res, w2)"
    by (cases "subprocess_run os w1 ?command (Some repo_dir)")
  have "last (issued (snd (commit_changes os repo_dir msg st))) = (?command, Some repo_dir, res)"
    using add commit
    by (cases res) (simp_all add: commit_changes_def run_command_def prog_defs)
  moreover have "(takeWhile (\<lambda>c. c \<noteq> ?q) (msg @ [?q]) = msg) = (?q \<notin> set msg)"
    by (rule takeWhile_up_to)
  then have "(takeWhile (\<lambda>c. c \<noteq> ?q) (drop 15 ?command) = msg) = (?q \<notin> set msg)"
    by simp
  ultimately show ?thesis by blast
qed

text \<open>
  In the simulated environment: the message \<open>it's\<close> gives the command
  \<open>git commit -m 'it's'\<close>, whose quoted word ends after \<open>it\<close>.
\<close>

theorem commit_message_interpolated_verbatim_witness:
  "subprocess_run demo_os (world demo_start) ''git add .'' (Some ''main_repo'') =
     (Completed 0 [] [], world demo_start) \<and>
   fst (last (issued (snd (commit_changes demo_os ''main_repo'' (''it'' @ [CHR 0x27] @ ''s'') demo_start)))) =
     ''git commit -m '' @ [CHR 0x27] @ (''it'' @ [CHR 0x27] @ ''s'') @ [CHR 0x27] \<and>
   takeWhile (\<lambda>c. c \<noteq> CHR 0x27)
     (drop 15 (''git commit -m '' @ [CHR 0x27] @ (''it'' @ [CHR 0x27] @ ''s'') @ [CHR 0x27])) = ''it''"
proof -
  have add: "subprocess_run demo_os (world demo_start) ''git add .'' (Some ''main_repo'') =
     (Completed 0 [] [], world demo_start)"
    by code_simp
  from commit_message_interpolated_verbatim [OF add, of "''it'' @ [CHR 0x27] @ ''s''"]
  have "fst (last (issued (snd (commit_changes demo_os ''main_repo'' (''it'' @ [CHR 0x27] @ ''s'') demo_start)))) =
     ''git commit -m '' @ [CHR 0x27] @ (''it'' @ [CHR 0x27] @ ''s'') @ [CHR 0x27]"
    by auto
  moreover have "takeWhile (\<lambda>c. c \<noteq> CHR 0x27)
     (drop 15 (''git commit -m '' @ [CHR 0x27] @ (''it'' @ [CHR 0x27] @ ''s'') @ [CHR 0x27])) = ''it''"
    by simp
  ultimately show ?thesis using add by blast
qed

section \<open>The command line\<close>

text \<open>
  Claim C7. The \<open>merge\<close> action without a source branch, and the \<open>setup\<close> action when
  no sub-repository URL is available (none on the command line and the global one empty),
  print an error and end the process with exit code 1 before anything else happens: no
  command is issued and the world is untouched.
\<close>

theorem main_configuration_errors:
  "(args_action a = Merge \<and> \<not> truthy (args_source_branch a) \<longrightarrow>
      main g os a st =
        (Inl (SystemExit 1),
         st\<lparr>printed := printed st @
           [''Error: --source-branch is required for merge operation'']\<rparr>)) \<and>
   (args_action a = Setup \<and> \<not> truthy (args_sub_repo a) \<and> subGitHubURL g = [] \<longrightarrow>
      main g os a st =
        (Inl (SystemExit 1),
         st\<lparr>printed := printed st @
           [''Error: No sub repository URL provided. Please either set the ''
            @ ''global subGitHubURL or provide --sub-repo'']\<rparr>))"
  by (simp add: main_def prog_defs)

theorem main_configuration_errors_witness:
  "main shipped demo_os (demo_args Merge) demo_start =
     (Inl (SystemExit 1),
      demo_start\<lparr>printed := printed demo_start @
        [''Error: --source-branch is required for merge operation'']\<rparr>) \<and>
   issued (snd (main shipped demo_os (demo_args Merge) demo_start)) = [] \<and>
   main (shipped\<lparr>subGitHubURL := []\<rparr>) demo_os (demo_args Setup) demo_start =
     (Inl (SystemExit 1),
      demo_start\<lparr>printed := printed demo_start @
        [''Error: No sub repository URL provided. Please either set the ''
         @ ''global subGitHubURL or provide --sub-repo'']\<rparr>)"
proof -
  have m: "args_action (demo_args Merge) = Merge \<and> \<not> truthy (args_source_branch (demo_args Merge))"
    by (simp add: demo_args_def)
  have s: "args_action (demo_args Setup) = Setup \<and> \<not> truthy (args_sub_repo (demo_args Setup)) \<and>
      subGitHubURL (shipped\<lparr>subGitHubURL := []\<rparr>) = []"
    by (simp add: demo_args_def)
  from main_configuration_errors [of "demo_args Merge" shipped demo_os demo_start] m
  have a: "main shipped demo_os (demo_args Merge) demo_start =
     (Inl (SystemExit 1),
      demo_start\<lparr>printed := printed demo_start @
        [''Error: --source-branch is required for merge operation'']\<rparr>)"
    by blast
  from main_configuration_errors
    [of "demo_args Setup" "shipped\<lparr>subGitHubURL := []\<rparr>" demo_os demo_start] s
  have b: "main (shipped\<lparr>subGitHubURL := []\<rparr>) demo_os (demo_args Setup) demo_start =
     (Inl (SystemExit 1),
      demo_start\<lparr>printed := printed demo_start @
        [''Error: No sub repository URL provided. Please either set the ''
         @ ''global subGitHubURL or provide --sub-repo'']\<rparr>)"
    by blast
  from a have "issued (snd (main shipped demo_os (demo_args Merge) demo_start)) = []"
    by (simp add: demo_start_def)
  with a b show ?thesis by blast
qed

text \<open>
  Claim C8. The \<open>push\<close> action issues one command, \<open>git push subrepo\<close> followed by the
  chosen branch, and the \<open>pull\<close> action issues one command, \<open>git pull origin\<close> followed
  by the chosen branch, both in the main directory. The remote names are constants of
  \<open>main\<close>: of the command line only the branch and the main directory enter the command.
\<close>

theorem main_push_pull_remotes:
  "(args_action a = Push \<longrightarrow>
      issued (snd (main g os a st)) =
        issued st @
          [(''git push subrepo '' @ args_branch a, Some (args_main_dir a),
            fst (subprocess_run os (world st) (''git push subrepo '' @ args_branch a)
                   (Some (args_main_dir a))))]) \<and>
   (args_action a = Pull \<longrightarrow>
      issued (snd (main g os a st)) =
        issued st @
          [(''git pull origin '' @ args_branch a, Some (args_main_dir a),
            fst (subprocess_run os (world st) (''git pull origin '' @ args_branch a)
                   (Some (args_main_dir a))))])"
  by (auto simp: main_def push_to_repo_def pull_from_repo_def run_command_def prog_defs
      split: prod.splits proc_result.splits)

theorem main_push_pull_remotes_witness:
  "map ev_command (issued (snd (main shipped demo_os (demo_args Push) demo_start))) =
     [(''git push subrepo main'', Some ''main_repo'')] \<and>
   map ev_command (issued (snd (main shipped demo_os (demo_args Pull) demo_start))) =
     [(''git pull origin main'', Some ''main_repo'')]"
proof -
  have p: "args_action (demo_args Push) = Push" and q: "args_action (demo_args Pull) = Pull"
    by (simp_all add: demo_args_def)
  from main_push_pull_remotes [of "demo_args Push" shipped demo_os demo_start] p
  have a: "map ev_command (issued (snd (main shipped demo_os (demo_args Push) demo_start))) =
     [(''git push subrepo main'', Some ''main_repo'')]"
    by (simp add: demo_args_def demo_start_def)
  from main_push_pull_remotes [of "demo_args Pull" shipped demo_os demo_start] q
  have b: "map ev_command (issued (snd (main shipped demo_os (demo_args Pull) demo_start))) =
     [(''git pull origin main'', Some ''main_repo'')]"
    by (simp add: demo_args_def demo_start_def)
  from a b show ?thesis by blast
qed

section \<open>Provisioning\<close>

lemma use_global_url_result:
  "use_global_url label global_url url st =
     (Inr (if \<not> truthy url \<and> global_url \<noteq> [] then Some global_url else url),
      st\<lparr>printed := printed st @
        (if \<not> truthy url \<and> global_url \<noteq> []
         then [''Using '' @ label @ '' repository URL from global variable: '' @ global_url]
         else [])\<rparr>)"
  by (simp add: use_global_url_def prog_defs)

lemma main_block_exists:
  "os_path_exists os (world st) (path_join main_repo_dir ''.git'') \<Longrightarrow>
   clone_or_initialize_main_repository os main_repo_url main_repo_dir st =
     (Inr (), st\<lparr>printed := printed st @ [''Main repository already exists in '' @ main_repo_dir]\<rparr>)"
  by (simp add: clone_or_initialize_main_repository_def prog_defs)

lemma sub_block_exists:
  "os_path_exists os (world st) (path_join sub_repo_dir ''.git'') \<Longrightarrow>
   clone_sub_repository os sub_repo_url sub_repo_dir st =
     (Inr (), st\<lparr>printed := printed st @ [''Sub repository already exists in '' @ sub_repo_dir]\<rparr>)"
  by (simp add: clone_sub_repository_def prog_defs)

lemma setup_repositories_provisioned:
  assumes "os_makedirs os (world st) main_repo_dir = Some (world st)"
    and "os_makedirs os (world st) sub_repo_dir = Some (world st)"
    and "os_path_exists os (world st) (path_join main_repo_dir ''.git'')"
    and "os_path_exists os (world st) (path_join sub_repo_dir ''.git'')"
  shows "setup_repositories g os main_repo_url sub_repo_url main_repo_dir sub_repo_dir st =
     (Inr (main_repo_dir, sub_repo_dir),
      st\<lparr>printed := printed st @
        (if \<not> truthy main_repo_url \<and> mainGitHubURL g \<noteq> []
         then [''Using main repository URL from global variable: '' @ mainGitHubURL g] else []) @
        (if \<not> truthy sub_repo_url \<and> subGitHubURL g \<noteq> []
         then [''Using sub repository URL from global variable: '' @ subGitHubURL g] else []) @
        [''Main repository already exists in '' @ main_repo_dir,
         ''Sub repository already exists in '' @ sub_repo_dir]\<rparr>)"
proof -
  have m1: "makedirs os main_repo_dir st = (Inr (), st)"
    using assms(1) by (simp add: makedirs_def)
  have m2: "makedirs os sub_repo_dir st = (Inr (), st)"
    using assms(2) by (simp add: makedirs_def)
  show ?thesis
    unfolding setup_repositories_def
    by (simp add: then_do_def m1 m2 use_global_url_result main_block_exists sub_block_exists
        assms ret_def)
qed

text \<open>
  \<open>setup_repositories\<close> up to its two blocks: the directories are created, the URLs are
  replaced by the globals where missing, then the block for the main and the block for the
  sub repository run.
\<close>

lemma setup_repositories_blocks:
  assumes "os_makedirs os (world st) main_repo_dir = Some w1"
    and "os_makedirs os w1 sub_repo_dir = Some w2"
  shows "setup_repositories g os main_repo_url sub_repo_url main_repo_dir sub_repo_dir st =
     then_do (clone_or_initialize_main_repository os
                (if \<not> truthy main_repo_url \<and> mainGitHubURL g \<noteq> [] then Some (mainGitHubURL g)
                 else main_repo_url) main_repo_dir) (\<lambda>_.
     then_do (clone_sub_repository os
                (if \<not> truthy sub_repo_url \<and> subGitHubURL g \<noteq> [] then Some (subGitHubURL g)
                 else sub_repo_url) sub_repo_dir) (\<lambda>_.
     ret (main_repo_dir, sub_repo_dir)))
       (st\<lparr>world := w2,
          printed := printed st @
            (if \<not> truthy main_repo_url \<and> mainGitHubURL g \<noteq> []
             then [''Using main repository URL from global variable: '' @ mainGitHubURL g]
             else []) @
            (if \<not> truthy sub_repo_url \<and> subGitHubURL g \<noteq> []
             then [''Using sub repository URL from global variable: '' @ subGitHubURL g]
             else [])\<rparr>)"
proof -
  have m1: "makedirs os main_repo_dir st = (Inr (), st\<lparr>world := w1\<rparr>)"
    using assms(1) by (simp add: makedirs_def)
  have m2: "makedirs os sub_repo_dir (st\<lparr>world := w1\<rparr>) = (Inr (), st\<lparr>world := w2\<rparr>)"
    using assms(2) by (simp add: makedirs_def)
  show ?thesis
    unfolding setup_repositories_def
    by (subst then_do_def, simp only: m1 prod.case sum.case,
        subst then_do_def, simp only: m2 prod.case sum.case,
        subst then_do_def, simp only: use_global_url_result prod.case sum.case,
        subst then_do_def, simp only: use_global_url_result prod.case sum.case,
        simp)
qed

lemma setup_repositories_no_directory:
  "os_makedirs os (world st) main_repo_dir = None \<Longrightarrow>
   setup_repositories g os main_repo_url sub_repo_url main_repo_dir sub_repo_dir st =
     (Inl (Uncaught ''OSError''), st)"
  "os_makedirs os (world st) main_repo_dir = Some w1 \<Longrightarrow> os_makedirs os w1 sub_repo_dir = None \<Longrightarrow>
   setup_repositories g os main_repo_url sub_repo_url main_repo_dir sub_repo_dir st =
     (Inl (Uncaught ''OSError''), st\<lparr>world := w1\<rparr>)"
  by (simp_all add: setup_repositories_def then_do_def makedirs_def)

text \<open>What the block for the main repository does, by cases.\<close>

lemma main_block_outcome:
  assumes "clone_or_initialize_main_repository os u d st = (r, st')"
  shows "(os_path_exists os (world st) (path_join d ''.git'') \<longrightarrow>
            r = Inr () \<and> issued st' = issued st \<and> world st' = world st) \<and>
         (\<not> os_path_exists os (world st) (path_join d ''.git'') \<longrightarrow>
            issued st' = issued st @
              [(if truthy u then ''git clone '' @ fmt u @ '' '' @ d else ''git init'',
                if truthy u then None else Some d,
                fst (subprocess_run os (world st)
                       (if truthy u then ''git clone '' @ fmt u @ '' '' @ d else ''git init'')
                       (if truthy u then None else Some d)))]) \<and>
         (\<forall>e. r = Inl e \<longrightarrow> exit_code e = 1)"
  using assms
  by (auto simp: clone_or_initialize_main_repository_def run_command_def prog_defs
      split: if_splits prod.splits proc_result.splits)

lemma sub_block_outcome:
  assumes "clone_sub_repository os u d st = (r, st')"
  shows "(os_path_exists os (world st) (path_join d ''.git'') \<longrightarrow>
            r = Inr () \<and> issued st' = issued st \<and> world st' = world st) \<and>
         (\<not> os_path_exists os (world st) (path_join d ''.git'') \<and> truthy u \<longrightarrow>
            issued st' = issued st @
              [(''git clone '' @ fmt u @ '' '' @ d, None,
                fst (subprocess_run os (world st) (''git clone '' @ fmt u @ '' '' @ d) None))]) \<and>
         (\<not> os_path_exists os (world st) (path_join d ''.git'') \<and> \<not> truthy u \<longrightarrow>
            r = Inl (SystemExit 1) \<and>
            st' = st\<lparr>printed := printed st @ [''Error: No sub repository URL provided'']\<rparr>) \<and>
         (\<forall>e. r = Inl e \<longrightarrow> exit_code e = 1)"
  using assms
  by (auto simp: clone_sub_repository_def run_command_def prog_defs
      split: if_splits prod.splits proc_result.splits)


text \<open>What follows a statement only adds to the history.\<close>

lemma then_do_issued:
  assumes run: "then_do m k st = (r, st')" and m: "m st = (r1, st1)"
    and k: "\<And>x. fatal_stop (k x)"
  shows "\<exists>es. issued st' = issued st1 @ es"
proof (cases r1)
  case (Inl e)
  with run m have "st' = st1" by (simp add: then_do_def)
  then show ?thesis by simp
next
  case (Inr x)
  with run m have "k x st1 = (r, st')" by (simp add: then_do_def)
  with k [of x] show ?thesis unfolding fatal_stop_def by blast
qed

text \<open>The two blocks of \<open>setup_repositories\<close>, by cases, with the world they leave.\<close>

lemma main_block_run:
  assumes "clone_or_initialize_main_repository os u d st = (r, st')"
    and "command = (if truthy u then ''git clone '' @ fmt u @ '' '' @ d else ''git init'')"
    and "cwd = (if truthy u then None else Some d)"
  shows "(os_path_exists os (world st) (path_join d ''.git'') \<longrightarrow>
            r = Inr () \<and> issued st' = issued st \<and> world st' = world st) \<and>
         (\<not> os_path_exists os (world st) (path_join d ''.git'') \<longrightarrow>
            issued st' = issued st @ [(command, cwd, fst (subprocess_run os (world st) command cwd))] \<and>
            world st' = snd (subprocess_run os (world st) command cwd) \<and>
            (r = Inr ()) = ev_ok (command, cwd, fst (subprocess_run os (world st) command cwd)))"
  using assms
  by (auto simp: clone_or_initialize_main_repository_def run_command_def prog_defs
      split: if_splits prod.splits proc_result.splits)

lemma sub_block_run:
  assumes "clone_sub_repository os u d st = (r, st')"
  shows "issued st' = issued st @
           (if \<not> os_path_exists os (world st) (path_join d ''.git'') \<and> truthy u
            then [(''git clone '' @ fmt u @ '' '' @ d, None,
                   fst (subprocess_run os (world st) (''git clone '' @ fmt u @ '' '' @ d) None))]
            else [])"
  using assms
  by (auto simp: clone_sub_repository_def run_command_def prog_defs
      split: if_splits prod.splits proc_result.splits)

text \<open>
  All the commands of \<open>setup_repositories\<close>, once the two directories are created: the
  command of the main repository unless its \<open>.git\<close> exists, and then, when that went
  well, the clone of the sub repository unless its \<open>.git\<close> exists or there is no URL.
\<close>

lemma setup_repositories_commands:
  assumes d1: "os_makedirs os (world st) main_repo_dir = Some w1"
    and d2: "os_makedirs os w1 sub_repo_dir = Some w2"
    and run: "setup_repositories g os main_repo_url sub_repo_url main_repo_dir sub_repo_dir st = (r, st')"
    and u: "u = (if \<not> truthy main_repo_url \<and> mainGitHubURL g \<noteq> [] then Some (mainGitHubURL g)
                 else main_repo_url)"
    and v: "v = (if \<not> truthy sub_repo_url \<and> subGitHubURL g \<noteq> [] then Some (subGitHubURL g)
                 else sub_repo_url)"
    and mc: "mc = (if truthy u then ''git clone '' @ fmt u @ '' '' @ main_repo_dir else ''git init'')"
    and mcwd: "mcwd = (if truthy u then None else Some main_repo_dir)"
    and exm: "exm = os_path_exists os w2 (path_join main_repo_dir ''.git'')"
    and w3: "w3 = (if exm then w2 else snd (subprocess_run os w2 mc mcwd))"
    and sc: "sc = ''git clone '' @ fmt v @ '' '' @ sub_repo_dir"
  shows "issued st' = issued st @
           (if exm then [] else [(mc, mcwd, fst (subprocess_run os w2 mc mcwd))]) @
           (if (exm \<or> ev_ok (mc, mcwd, fst (subprocess_run os w2 mc mcwd))) \<and>
               \<not> os_path_exists os w3 (path_join sub_repo_dir ''.git'') \<and> truthy v
            then [(sc, None, fst (subprocess_run os w3 sc None))] else [])"
proof -
  let ?st2 = "st\<lparr>world := w2,
          printed := printed st @
            (if \<not> truthy main_repo_url \<and> mainGitHubURL g \<noteq> []
             then [''Using main repository URL from global variable: '' @ mainGitHubURL g]
             else []) @
            (if \<not> truthy sub_repo_url \<and> subGitHubURL g \<noteq> []
             then [''Using sub repository URL from global variable: '' @ subGitHubURL g]
             else [])\<rparr>"
  from run have run': "then_do (clone_or_initialize_main_repository os u main_repo_dir)
      (\<lambda>_. then_do (clone_sub_repository os v sub_repo_dir)
              (\<lambda>_. ret (main_repo_dir, sub_repo_dir))) ?st2 = (r, st')"
    by (simp add: setup_repositories_blocks [OF d1 d2] u v)
  obtain r1 st1 where b1: "clone_or_initialize_main_repository os u main_repo_dir ?st2 = (r1, st1)"
    by (cases "clone_or_initialize_main_repository os u main_repo_dir ?st2")
  note m = main_block_run [OF b1 mc mcwd]
  have i1: "issued st1 = issued st @ (if exm then [] else [(mc, mcwd, fst (subprocess_run os w2 mc mcwd))])"
    and w1: "world st1 = w3"
    and ok1: "(r1 = Inr ()) = (exm \<or> ev_ok (mc, mcwd, fst (subprocess_run os w2 mc mcwd)))"
    using m by (cases exm; simp add: exm w3)+
  show ?thesis
  proof (cases r1)
    case (Inl e)
    with run' b1 have "st' = st1" by (simp add: then_do_def)
    with i1 ok1 Inl show ?thesis by simp
  next
    case (Inr x)
    with run' b1 have "then_do (clone_sub_repository os v sub_repo_dir)
        (\<lambda>_. ret (main_repo_dir, sub_repo_dir)) st1 = (r, st')"
      by (simp add: then_do_def)
    then obtain r2 where b2: "clone_sub_repository os v sub_repo_dir st1 = (r2, st')"
      by (auto simp: then_do_def ret_def split: prod.splits sum.splits)
    from sub_block_run [OF b2] i1 w1 ok1 Inr show ?thesis
      by (simp add: sc)
  qed
qed

lemma setup_repositories_no_op:
  "(os_path_exists os (world st) (path_join main_repo_dir ''.git'') \<longrightarrow>
      clone_or_initialize_main_repository os main_repo_url main_repo_dir st =
        (Inr (),
         st\<lparr>printed := printed st @ [''Main repository already exists in '' @ main_repo_dir]\<rparr>)) \<and>
   (os_path_exists os (world st) (path_join sub_repo_dir ''.git'') \<longrightarrow>
      clone_sub_repository os sub_repo_url sub_repo_dir st =
        (Inr (),
         st\<lparr>printed := printed st @ [''Sub repository already exists in '' @ sub_repo_dir]\<rparr>)) \<and>
   (os_makedirs os (world st) main_repo_dir = Some (world st) \<and>
    os_makedirs os (world st) sub_repo_dir = Some (world st) \<and>
    os_path_exists os (world st) (path_join main_repo_dir ''.git'') \<and>
    os_path_exists os (world st) (path_join sub_repo_dir ''.git'') \<longrightarrow>
      setup_repositories g os main_repo_url sub_repo_url main_repo_dir sub_repo_dir st =
        (Inr (main_repo_dir, sub_repo_dir),
         st\<lparr>printed := printed st @
           (if \<not> truthy main_repo_url \<and> mainGitHubURL g \<noteq> []
            then [''Using main repository URL from global variable: '' @ mainGitHubURL g]
            else []) @
           (if \<not> truthy sub_repo_url \<and> subGitHubURL g \<noteq> []
            then [''Using sub repository URL from global variable: '' @ subGitHubURL g]
            else []) @
           [''Main repository already exists in '' @ main_repo_dir,
            ''Sub repository already exists in '' @ sub_repo_dir]\<rparr>)) \<and>
   (setup_repositories g os main_repo_url sub_repo_url main_repo_dir sub_repo_dir st0 = (Inr x, st) \<and>
    os_makedirs os (world st) main_repo_dir = Some (world st) \<and>
    os_makedirs os (world st) sub_repo_dir = Some (world st) \<and>
    os_path_exists os (world st) (path_join main_repo_dir ''.git'') \<and>
    os_path_exists os (world st) (path_join sub_repo_dir ''.git'') \<longrightarrow>
      (\<exists>lines.
         then_do (setup_repositories g os main_repo_url sub_repo_url main_repo_dir sub_repo_dir)
           (\<lambda>_. setup_repositories g os main_repo_url sub_repo_url main_repo_dir sub_repo_dir) st0 =
         (Inr (main_repo_dir, sub_repo_dir), st\<lparr>printed := printed st @ lines\<rparr>)))"
proof (intro conjI impI)
  assume "os_path_exists os (world st) (path_join main_repo_dir ''.git'')"
  then show "clone_or_initialize_main_repository os main_repo_url main_repo_dir st =
        (Inr (),
         st\<lparr>printed := printed st @ [''Main repository already exists in '' @ main_repo_dir]\<rparr>)"
    by (rule main_block_exists)
next
  assume "os_path_exists os (world st) (path_join sub_repo_dir ''.git'')"
  then show "clone_sub_repository os sub_repo_url sub_repo_dir st =
        (Inr (),
         st\<lparr>printed := printed st @ [''Sub repository already exists in '' @ sub_repo_dir]\<rparr>)"
    by (rule sub_block_exists)
next
  assume "os_makedirs os (world st) main_repo_dir = Some (world st) \<and>
    os_makedirs os (world st) sub_repo_dir = Some (world st) \<and>
    os_path_exists os (world st) (path_join main_repo_dir ''.git'') \<and>
    os_path_exists os (world st) (path_join sub_repo_dir ''.git'')"
  then show "setup_repositories g os main_repo_url sub_repo_url main_repo_dir sub_repo_dir st =
        (Inr (main_repo_dir, sub_repo_dir),
         st\<lparr>printed := printed st @
           (if \<not> truthy main_repo_url \<and> mainGitHubURL g \<noteq> []
            then [''Using main repository URL from global variable: '' @ mainGitHubURL g]
            else []) @
           (if \<not> truthy sub_repo_url \<and> subGitHubURL g \<noteq> []
            then [''Using sub repository URL from global variable: '' @ subGitHubURL g]
            else []) @
           [''Main repository already exists in '' @ main_repo_dir,
            ''Sub repository already exists in '' @ sub_repo_dir]\<rparr>)"
    by (intro setup_repositories_provisioned) simp_all
next
  assume a: "setup_repositories g os main_repo_url sub_repo_url main_repo_dir sub_repo_dir st0 = (Inr x, st) \<and>
    os_makedirs os (world st) main_repo_dir = Some (world st) \<and>
    os_makedirs os (world st) sub_repo_dir = Some (world st) \<and>
    os_path_exists os (world st) (path_join main_repo_dir ''.git'') \<and>
    os_path_exists os (world st) (path_join sub_repo_dir ''.git'')"
  then have first: "setup_repositories g os main_repo_url sub_repo_url main_repo_dir sub_repo_dir st0 = (Inr x, st)"
    by simp
  from a have "\<exists>lines. setup_repositories g os main_repo_url sub_repo_url main_repo_dir sub_repo_dir st =
      (Inr (main_repo_dir, sub_repo_dir), st\<lparr>printed := printed st @ lines\<rparr>)"
    using setup_repositories_provisioned [of os st main_repo_dir sub_repo_dir g main_repo_url sub_repo_url]
    by blast
  then show "\<exists>lines.
         then_do (setup_repositories g os main_repo_url sub_repo_url main_repo_dir sub_repo_dir)
           (\<lambda>_. setup_repositories g os main_repo_url sub_repo_url main_repo_dir sub_repo_dir) st0 =
         (Inr (main_repo_dir, sub_repo_dir), st\<lparr>printed := printed st @ lines\<rparr>)"
    by (simp add: then_do_def first)
qed

lemma setup_repositories_main_exists:
  assumes d1: "os_makedirs os (world st) main_repo_dir = Some w1"
    and d2: "os_makedirs os w1 sub_repo_dir = Some w2"
    and run: "setup_repositories g os main_repo_url sub_repo_url main_repo_dir sub_repo_dir st = (r, st')"
    and v: "v = (if \<not> truthy sub_repo_url \<and> subGitHubURL g \<noteq> [] then Some (subGitHubURL g)
                 else sub_repo_url)"
    and ex: "os_path_exists os w2 (path_join main_repo_dir ''.git'')"
  shows "issued st' = issued st @
        (if \<not> os_path_exists os w2 (path_join sub_repo_dir ''.git'') \<and> truthy v
         then [(''git clone '' @ fmt v @ '' '' @ sub_repo_dir, None,
                fst (subprocess_run os w2 (''git clone '' @ fmt v @ '' '' @ sub_repo_dir) None))]
         else [])"
  using setup_repositories_commands [OF d1 d2 run refl v refl refl refl refl refl] ex
  by simp

lemma setup_repositories_sub_exists:
  assumes d1: "os_makedirs os (world st) main_repo_dir = Some w1"
    and d2: "os_makedirs os w1 sub_repo_dir = Some w2"
    and run: "setup_repositories g os main_repo_url sub_repo_url main_repo_dir sub_repo_dir st = (r, st')"
    and u: "u = (if \<not> truthy main_repo_url \<and> mainGitHubURL g \<noteq> [] then Some (mainGitHubURL g)
                 else main_repo_url)"
    and mc: "mc = (if truthy u then ''git clone '' @ fmt u @ '' '' @ main_repo_dir else ''git init'')"
    and mcwd: "mcwd = (if truthy u then None else Some main_repo_dir)"
    and ex: "os_path_exists os
      (if os_path_exists os w2 (path_join main_repo_dir ''.git'') then w2
       else snd (subprocess_run os w2 mc mcwd))
      (path_join sub_repo_dir ''.git'')"
  shows "issued st' = issued st @
        (if os_path_exists os w2 (path_join main_repo_dir ''.git'') then []
         else [(mc, mcwd, fst (subprocess_run os w2 mc mcwd))])"
  using setup_repositories_commands [OF d1 d2 run u refl mc mcwd refl refl refl] ex
  by simp

text \<open>
  Claim C3. Once the two directories are created, \<open>setup_repositories\<close> issues nothing
  for a directory whose \<open>.git\<close> exists: with the main directory's \<open>.git\<close> there, its
  commands are at most the clone of the sub repository, and with the sub directory's
  \<open>.git\<close> there when its turn comes, its commands are at most the one command of the
  main repository. The same holds of the block for each directory taken alone. So in a
  state where both directories are there (creating them again changes nothing) and both
  hold a \<open>.git\<close>, as after a first call that provisioned them, \<open>setup_repositories\<close>
  comes back with the two directories, issues no command and leaves the world as it was;
  it only prints.
\<close>

theorem setup_repositories_idempotent:
  "(os_makedirs os (world st) main_repo_dir = Some w1 \<and> os_makedirs os w1 sub_repo_dir = Some w2 \<and>
    setup_repositories g os main_repo_url sub_repo_url main_repo_dir sub_repo_dir st = (r, st') \<and>
    v = (if \<not> truthy sub_repo_url \<and> subGitHubURL g \<noteq> [] then Some (subGitHubURL g)
         else sub_repo_url) \<and>
    os_path_exists os w2 (path_join main_repo_dir ''.git'') \<longrightarrow>
      issued st' = issued st @
        (if \<not> os_path_exists os w2 (path_join sub_repo_dir ''.git'') \<and> truthy v
         then [(''git clone '' @ fmt v @ '' '' @ sub_repo_dir, None,
                fst (subprocess_run os w2 (''git clone '' @ fmt v @ '' '' @ sub_repo_dir) None))]
         else [])) \<and>
   (os_makedirs os (world st) main_repo_dir = Some w1 \<and> os_makedirs os w1 sub_repo_dir = Some w2 \<and>
    setup_repositories g os main_repo_url sub_repo_url main_repo_dir sub_repo_dir st = (r, st') \<and>
    u = (if \<not> truthy main_repo_url \<and> mainGitHubURL g \<noteq> [] then Some (mainGitHubURL g)
         else main_repo_url) \<and>
    mc = (if truthy u then ''git clone '' @ fmt u @ '' '' @ main_repo_dir else ''git init'') \<and>
    mcwd = (if truthy u then None else Some main_repo_dir) \<and>
    os_path_exists os
      (if os_path_exists os w2 (path_join main_repo_dir ''.git'') then w2
       else snd (subprocess_run os w2 mc mcwd))
      (path_join sub_repo_dir ''.git'') \<longrightarrow>
      issued st' = issued st @
        (if os_path_exists os w2 (path_join main_repo_dir ''.git'') then []
         else [(mc, mcwd, fst (subprocess_run os w2 mc mcwd))])) \<and>
   (os_path_exists os (world st) (path_join main_repo_dir ''.git'') \<longrightarrow>
      clone_or_initialize_main_repository os main_repo_url main_repo_dir st =
        (Inr (),
         st\<lparr>printed := printed st @ [''Main repository already exists in '' @ main_repo_dir]\<rparr>)) \<and>
   (os_path_exists os (world st) (path_join sub_repo_dir ''.git'') \<longrightarrow>
      clone_sub_repository os sub_repo_url sub_repo_dir st =
        (Inr (),
         st\<lparr>printed := printed st @ [''Sub repository already exists in '' @ sub_repo_dir]\<rparr>)) \<and>
   (os_makedirs os (world st) main_repo_dir = Some (world st) \<and>
    os_makedirs os (world st) sub_repo_dir = Some (world st) \<and>
    os_path_exists os (world st) (path_join main_repo_dir ''.git'') \<and>
    os_path_exists os (world st) (path_join sub_repo_dir ''.git'') \<longrightarrow>
      setup_repositories g os main_repo_url sub_repo_url main_repo_dir sub_repo_dir st =
        (Inr (main_repo_dir, sub_repo_dir),
         st\<lparr>printed := printed st @
           (if \<not> truthy main_repo_url \<and> mainGitHubURL g \<noteq> []
            then [''Using main repository URL from global variable: '' @ mainGitHubURL g]
            else []) @
           (if \<not> truthy sub_repo_url \<and> subGitHubURL g \<noteq> []
            then [''Using sub repository URL from global variable: '' @ subGitHubURL g]
            else []) @
           [''Main repository already exists in '' @ main_repo_dir,
            ''Sub repository already exists in '' @ sub_repo_dir]\<rparr>)) \<and>
   (setup_repositories g os main_repo_url sub_repo_url main_repo_dir sub_repo_dir st0 = (Inr x, st) \<and>
    os_makedirs os (world st) main_repo_dir = Some (world st) \<and>
    os_makedirs os (world st) sub_repo_dir = Some (world st) \<and>
    os_path_exists os (world st) (path_join main_repo_dir ''.git'') \<and>
    os_path_exists os (world st) (path_join sub_repo_dir ''.git'') \<longrightarrow>
      (\<exists>lines.
         then_do (setup_repositories g os main_repo_url sub_repo_url main_repo_dir sub_repo_dir)
           (\<lambda>_. setup_repositories g os main_repo_url sub_repo_url main_repo_dir sub_repo_dir) st0 =
         (Inr (main_repo_dir, sub_repo_dir), st\<lparr>printed := printed st @ lines\<rparr>)))"
proof -
  have a: "os_makedirs os (world st) main_repo_dir = Some w1 \<and> os_makedirs os w1 sub_repo_dir = Some w2 \<and>
    setup_repositories g os main_repo_url sub_repo_url main_repo_dir sub_repo_dir st = (r, st') \<and>
    v = (if \<not> truthy sub_repo_url \<and> subGitHubURL g \<noteq> [] then Some (subGitHubURL g)
         else sub_repo_url) \<and>
    os_path_exists os w2 (path_join main_repo_dir ''.git'') \<longrightarrow>
      issued st' = issued st @
        (if \<not> os_path_exists os w2 (path_join sub_repo_dir ''.git'') \<and> truthy v
         then [(''git clone '' @ fmt v @ '' '' @ sub_repo_dir, None,
                fst (subprocess_run os w2 (''git clone '' @ fmt v @ '' '' @ sub_repo_dir) None))]
         else [])"
    by (intro impI, elim conjE, rule setup_repositories_main_exists)
  have b: "os_makedirs os (world st) main_repo_dir = Some w1 \<and> os_makedirs os w1 sub_repo_dir = Some w2 \<and>
    setup_repositories g os main_repo_url sub_repo_url main_repo_dir sub_repo_dir st = (r, st') \<and>
    u = (if \<not> truthy main_repo_url \<and> mainGitHubURL g \<noteq> [] then Some (mainGitHubURL g)
         else main_repo_url) \<and>
    mc = (if truthy u then ''git clone '' @ fmt u @ '' '' @ main_repo_dir else ''git init'') \<and>
    mcwd = (if truthy u then None else Some main_repo_dir) \<and>
    os_path_exists os
      (if os_path_exists os w2 (path_join main_repo_dir ''.git'') then w2
       else snd (subprocess_run os w2 mc mcwd))
      (path_join sub_repo_dir ''.git'') \<longrightarrow>
      issued st' = issued st @
        (if os_path_exists os w2 (path_join main_repo_dir ''.git'') then []
         else [(mc, mcwd, fst (subprocess_run os w2 mc mcwd))])"
    by (intro impI, elim conjE, rule setup_repositories_sub_exists)
  have c: "(os_path_exists os (world st) (path_join main_repo_dir ''.git'') \<longrightarrow>
      clone_or_initialize_main_repository os main_repo_url main_repo_dir st =
        (Inr (),
         st\<lparr>printed := printed st @ [''Main repository already exists in '' @ main_repo_dir]\<rparr>)) \<and>
   (os_path_exists os (world st) (path_join sub_repo_dir ''.git'') \<longrightarrow>
      clone_sub_repository os sub_repo_url sub_repo_dir st =
        (Inr (),
         st\<lparr>printed := printed st @ [''Sub repository already exists in '' @ sub_repo_dir]\<rparr>)) \<and>
   (os_makedirs os (world st) main_repo_dir = Some (world st) \<and>
    os_makedirs os (world st) sub_repo_dir = Some (world st) \<and>
    os_path_exists os (world st) (path_join main_repo_dir ''.git'') \<and>
    os_path_exists os (world st) (path_join sub_repo_dir ''.git'') \<longrightarrow>
      setup_repositories g os main_repo_url sub_repo_url main_repo_dir sub_repo_dir st =
        (Inr (main_repo_dir, sub_repo_dir),
         st\<lparr>printed := printed st @
           (if \<not> truthy main_repo_url \<and> mainGitHubURL g \<noteq> []
            then [''Using main repository URL from global variable: '' @ mainGitHubURL g]
            else []) @
           (if \<not> truthy sub_repo_url \<and> subGitHubURL g \<noteq> []
            then [''Using sub repository URL from global variable: '' @ subGitHubURL g]
            else []) @
           [''Main repository already exists in '' @ main_repo_dir,
            ''Sub repository already exists in '' @ sub_repo_dir]\<rparr>)) \<and>
   (setup_repositories g os main_repo_url sub_repo_url main_repo_dir sub_repo_dir st0 = (Inr x, st) \<and>
    os_makedirs os (world st) main_repo_dir = Some (world st) \<and>
    os_makedirs os (world st) sub_repo_dir = Some (world st) \<and>
    os_path_exists os (world st) (path_join main_repo_dir ''.git'') \<and>
    os_path_exists os (world st) (path_join sub_repo_dir ''.git'') \<longrightarrow>
      (\<exists>lines.
         then_do (setup_repositories g os main_repo_url sub_repo_url main_repo_dir sub_repo_dir)
           (\<lambda>_. setup_repositories g os main_repo_url sub_repo_url main_repo_dir sub_repo_dir) st0 =
         (Inr (main_repo_dir, sub_repo_dir), st\<lparr>printed := printed st @ lines\<rparr>)))"
    by (rule setup_repositories_no_op)
  from conjI [OF a conjI [OF b c]] show ?thesis .
qed

text \<open>
  In the simulated environment a first call from the empty start clones both
  repositories; a second call from the state it leaves issues nothing and changes nothing
  but the printed lines. Where only the main directory holds a repository the one command
  is the clone of the sub repository, and where only the sub directory holds one, the one
  command is the clone of the main repository.
\<close>

theorem setup_repositories_idempotent_witness:
  "setup_repositories shipped demo_os None None ''main_repo'' ''sub_repo'' demo_start =
     (Inr (''main_repo'', ''sub_repo''), demo_provisioned) \<and>
   map ev_command (issued demo_provisioned) =
     [(''git clone '' @ mainGitHubURL shipped @ '' main_repo'', None),
      (''git clone '' @ subGitHubURL shipped @ '' sub_repo'', None)] \<and>
   os_makedirs demo_os (world demo_provisioned) ''main_repo'' = Some (world demo_provisioned) \<and>
   os_makedirs demo_os (world demo_provisioned) ''sub_repo'' = Some (world demo_provisioned) \<and>
   os_path_exists demo_os (world demo_provisioned) (path_join ''main_repo'' ''.git'') \<and>
   os_path_exists demo_os (world demo_provisioned) (path_join ''sub_repo'' ''.git'') \<and>
   setup_repositories shipped demo_os None None ''main_repo'' ''sub_repo'' demo_provisioned =
     (Inr (''main_repo'', ''sub_repo''),
      demo_provisioned\<lparr>printed := printed demo_provisioned @
        [''Using main repository URL from global variable: '' @ mainGitHubURL shipped,
         ''Using sub repository URL from global variable: '' @ subGitHubURL shipped,
         ''Main repository already exists in '' @ ''main_repo'',
         ''Sub repository already exists in '' @ ''sub_repo'']\<rparr>) \<and>
   os_path_exists demo_os (world demo_main_only) (path_join ''main_repo'' ''.git'') \<and>
   map ev_command
     (issued (snd (setup_repositories shipped demo_os None None ''main_repo'' ''sub_repo''
        demo_main_only))) =
     [(''git clone '' @ subGitHubURL shipped @ '' sub_repo'', None)] \<and>
   os_path_exists demo_os (world demo_sub_only) (path_join ''sub_repo'' ''.git'') \<and>
   map ev_command
     (issued (snd (setup_repositories shipped demo_os None None ''main_repo'' ''sub_repo''
        demo_sub_only))) =
     [(''git clone '' @ mainGitHubURL shipped @ '' main_repo'', None)]"
proof -
  let ?v = "if \<not> truthy None \<and> subGitHubURL shipped \<noteq> [] then Some (subGitHubURL shipped) else None"
  let ?u = "if \<not> truthy None \<and> mainGitHubURL shipped \<noteq> [] then Some (mainGitHubURL shipped) else None"
  let ?mc = "if truthy ?u then ''git clone '' @ fmt ?u @ '' '' @ ''main_repo'' else ''git init''"
  let ?mcwd = "if truthy ?u then None else Some ''main_repo''"
  let ?rm = "setup_repositories shipped demo_os None None ''main_repo'' ''sub_repo'' demo_main_only"
  let ?rs = "setup_repositories shipped demo_os None None ''main_repo'' ''sub_repo'' demo_sub_only"
  have m1: "os_makedirs demo_os (world demo_main_only) ''main_repo'' = Some (world demo_main_only)"
    by code_simp
  have m2: "os_makedirs demo_os (world demo_main_only) ''sub_repo'' = Some (world demo_main_only)"
    by code_simp
  have m3: "os_path_exists demo_os (world demo_main_only) (path_join ''main_repo'' ''.git'')"
    by code_simp
  have mr: "?rm = (fst ?rm, snd ?rm)" by simp
  have mi: "issued demo_main_only @
        (if \<not> os_path_exists demo_os (world demo_main_only) (path_join ''sub_repo'' ''.git'') \<and> truthy ?v
         then [(''git clone '' @ fmt ?v @ '' '' @ ''sub_repo'', None,
                fst (subprocess_run demo_os (world demo_main_only)
                  (''git clone '' @ fmt ?v @ '' '' @ ''sub_repo'') None))]
         else []) =
      [(''git clone '' @ subGitHubURL shipped @ '' sub_repo'', None, Completed 0 [] [])]"
    by code_simp
  note tm = setup_repositories_idempotent [where os = demo_os
      and st = demo_main_only and main_repo_dir = "''main_repo''" and sub_repo_dir = "''sub_repo''"
      and ?w1.0 = "world demo_main_only" and ?w2.0 = "world demo_main_only" and g = shipped
      and main_repo_url = None and sub_repo_url = None and r = "fst ?rm" and st' = "snd ?rm"
      and v = ?v, THEN conjunct1]
  from tm [THEN mp, OF conjI [OF m1 conjI [OF m2 conjI [OF mr conjI [OF refl m3]]]]]
  have "issued (snd ?rm) =
      [(''git clone '' @ subGitHubURL shipped @ '' sub_repo'', None, Completed 0 [] [])]"
    unfolding mi .
  then have cm: "map ev_command (issued (snd ?rm)) =
     [(''git clone '' @ subGitHubURL shipped @ '' sub_repo'', None)]"
    by simp
  have s1: "os_makedirs demo_os (world demo_sub_only) ''main_repo'' = Some (world demo_sub_only)"
    by code_simp
  have s2: "os_makedirs demo_os (world demo_sub_only) ''sub_repo'' = Some (world demo_sub_only)"
    by code_simp
  have s3: "os_path_exists demo_os
      (if os_path_exists demo_os (world demo_sub_only) (path_join ''main_repo'' ''.git'')
       then world demo_sub_only
       else snd (subprocess_run demo_os (world demo_sub_only) ?mc ?mcwd))
      (path_join ''sub_repo'' ''.git'')"
    by code_simp
  have s4: "os_path_exists demo_os (world demo_sub_only) (path_join ''sub_repo'' ''.git'')"
    by code_simp
  have sr: "?rs = (fst ?rs, snd ?rs)" by simp
  have si: "issued demo_sub_only @
        (if os_path_exists demo_os (world demo_sub_only) (path_join ''main_repo'' ''.git'') then []
         else [(?mc, ?mcwd, fst (subprocess_run demo_os (world demo_sub_only) ?mc ?mcwd))]) =
      [(''git clone '' @ mainGitHubURL shipped @ '' main_repo'', None, Completed 0 [] [])]"
    by code_simp
  note ts = setup_repositories_idempotent [where os = demo_os
      and st = demo_sub_only and main_repo_dir = "''main_repo''" and sub_repo_dir = "''sub_repo''"
      and ?w1.0 = "world demo_sub_only" and ?w2.0 = "world demo_sub_only" and g = shipped
      and main_repo_url = None and sub_repo_url = None and r = "fst ?rs" and st' = "snd ?rs"
      and u = ?u and mc = ?mc and mcwd = ?mcwd, THEN conjunct2, THEN conjunct1]
  from ts [THEN mp, OF conjI [OF s1 conjI [OF s2 conjI [OF sr conjI [OF refl conjI [OF refl
      conjI [OF refl s3]]]]]]]
  have "issued (snd ?rs) =
      [(''git clone '' @ mainGitHubURL shipped @ '' main_repo'', None, Completed 0 [] [])]"
    unfolding si .
  then have cs: "map ev_command (issued (snd ?rs)) =
     [(''git clone '' @ mainGitHubURL shipped @ '' main_repo'', None)]"
    by simp
  have r: "fst (setup_repositories shipped demo_os None None ''main_repo'' ''sub_repo'' demo_start) =
      Inr (''main_repo'', ''sub_repo'')"
    by code_simp
  have first: "setup_repositories shipped demo_os None None ''main_repo'' ''sub_repo'' demo_start =
     (Inr (''main_repo'', ''sub_repo''), demo_provisioned)"
    unfolding demo_provisioned_def using r by (simp add: prod_eq_iff)
  have c: "map ev_command (issued demo_provisioned) =
     [(''git clone '' @ mainGitHubURL shipped @ '' main_repo'', None),
      (''git clone '' @ subGitHubURL shipped @ '' sub_repo'', None)]"
    by code_simp
  have h1: "os_makedirs demo_os (world demo_provisioned) ''main_repo'' = Some (world demo_provisioned)"
    by code_simp
  have h2: "os_makedirs demo_os (world demo_provisioned) ''sub_repo'' = Some (world demo_provisioned)"
    by code_simp
  have h3: "os_path_exists demo_os (world demo_provisioned) (path_join ''main_repo'' ''.git'')"
    by code_simp
  have h4: "os_path_exists demo_os (world demo_provisioned) (path_join ''sub_repo'' ''.git'')"
    by code_simp
  have g: "\<not> truthy None \<and> mainGitHubURL shipped \<noteq> []" "\<not> truthy None \<and> subGitHubURL shipped \<noteq> []"
    by (simp_all add: shipped_def)
  from setup_repositories_idempotent [where os = demo_os and st = demo_provisioned
      and main_repo_dir = "''main_repo''" and sub_repo_dir = "''sub_repo''" and g = shipped
      and main_repo_url = None and sub_repo_url = None, THEN conjunct2, THEN conjunct2,
      THEN conjunct2, THEN conjunct2, THEN conjunct1] h1 h2 h3 h4
  have "setup_repositories shipped demo_os None None ''main_repo'' ''sub_repo'' demo_provisioned =
     (Inr (''main_repo'', ''sub_repo''),
      demo_provisioned\<lparr>printed := printed demo_provisioned @
        (if \<not> truthy None \<and> mainGitHubURL shipped \<noteq> []
         then [''Using main repository URL from global variable: '' @ mainGitHubURL shipped]
         else []) @
        (if \<not> truthy None \<and> subGitHubURL shipped \<noteq> []
         then [''Using sub repository URL from global variable: '' @ subGitHubURL shipped]
         else []) @
        [''Main repository already exists in '' @ ''main_repo'',
         ''Sub repository already exists in '' @ ''sub_repo'']\<rparr>)"
    by blast
  then have second: "setup_repositories shipped demo_os None None ''main_repo'' ''sub_repo'' demo_provisioned =
     (Inr (''main_repo'', ''sub_repo''),
      demo_provisioned\<lparr>printed := printed demo_provisioned @
        [''Using main repository URL from global variable: '' @ mainGitHubURL shipped,
         ''Using sub repository URL from global variable: '' @ subGitHubURL shipped,
         ''Main repository already exists in '' @ ''main_repo'',
         ''Sub repository already exists in '' @ ''sub_repo'']\<rparr>)"
    using g by simp
  from first c h1 h2 h3 h4 second m3 cm s4 cs show ?thesis by blast
qed

text \<open>Commands that all satisfy a property.\<close>

named_theorems issues_only_intros

lemma issues_only_ret [issues_only_intros]: "issues_only Q (ret x)"
  by (simp add: issues_only_def ret_def)

lemma issues_only_print [issues_only_intros]: "issues_only Q (print s)"
  by (auto simp: issues_only_def print_def)

lemma issues_only_sys_exit [issues_only_intros]: "issues_only Q (sys_exit n)"
  by (auto simp: issues_only_def sys_exit_def)

lemma issues_only_makedirs [issues_only_intros]: "issues_only Q (makedirs os d)"
  by (auto simp: issues_only_def makedirs_def split: option.splits)

lemma issues_only_path_exists [issues_only_intros]: "issues_only Q (path_exists os p)"
  by (auto simp: issues_only_def path_exists_def)

lemma issues_only_run_command [issues_only_intros]:
  "(\<And>res. Q (command, cwd, res)) \<Longrightarrow> issues_only Q (run_command os command cwd)"
  by (auto simp: issues_only_def run_command_def then_do_def print_def sys_exit_def
      split: prod.splits proc_result.splits if_splits)

lemma issues_only_then_do [issues_only_intros]:
  assumes m: "issues_only Q m" and k: "\<And>x. issues_only Q (k x)"
  shows "issues_only Q (then_do m k)"
  unfolding issues_only_def
proof (intro allI impI)
  fix st r st'
  assume run: "then_do m k st = (r, st')"
  obtain r1 st1 where m1: "m st = (r1, st1)" by (cases "m st")
  from m m1 obtain es1 where es1: "issued st1 = issued st @ es1" "list_all Q es1"
    unfolding issues_only_def by blast
  show "\<exists>es. issued st' = issued st @ es \<and> list_all Q es"
  proof (cases r1)
    case (Inl e)
    with run m1 have "st' = st1" by (simp add: then_do_def)
    with es1 show ?thesis by blast
  next
    case (Inr x)
    with run m1 have "k x st1 = (r, st')" by (simp add: then_do_def)
    with k [of x] obtain es2 where "issued st' = issued st1 @ es2" "list_all Q es2"
      unfolding issues_only_def by blast
    with es1 have "issued st' = issued st @ (es1 @ es2) \<and> list_all Q (es1 @ es2)" by simp
    then show ?thesis by blast
  qed
qed

lemma issues_only_if [issues_only_intros]:
  "(b \<Longrightarrow> issues_only Q m) \<Longrightarrow> (\<not> b \<Longrightarrow> issues_only Q n) \<Longrightarrow> issues_only Q (if b then m else n)"
  by simp

lemma issues_only_case_prod [issues_only_intros]:
  "(\<And>x y. issues_only Q (k x y)) \<Longrightarrow> issues_only Q (case p of (x, y) \<Rightarrow> k x y)"
  by (cases p) simp







text \<open>The first command of \<open>setup_repositories\<close> where the main directory has no \<open>.git\<close>.\<close>

lemma setup_repositories_first_command:
  assumes d1: "os_makedirs os (world st) main_repo_dir = Some w1"
    and d2: "os_makedirs os w1 sub_repo_dir = Some w2"
    and absent: "\<not> os_path_exists os w2 (path_join main_repo_dir ''.git'')"
    and run: "setup_repositories g os main_repo_url sub_repo_url main_repo_dir sub_repo_dir st = (r, st')"
    and u: "u = (if \<not> truthy main_repo_url \<and> mainGitHubURL g \<noteq> [] then Some (mainGitHubURL g)
                 else main_repo_url)"
    and c: "command = (if truthy u then ''git clone '' @ fmt u @ '' '' @ main_repo_dir else ''git init'')"
    and cwd: "cwd = (if truthy u then None else Some main_repo_dir)"
  shows "\<exists>es. issued st' = issued st @ (command, cwd, fst (subprocess_run os w2 command cwd)) # es \<and>
           (es = [] \<or>
            (\<exists>res. es = [(''git clone '' @ fmt (if \<not> truthy sub_repo_url \<and> subGitHubURL g \<noteq> []
                            then Some (subGitHubURL g) else sub_repo_url) @ '' '' @ sub_repo_dir,
                          None, res)]))"
proof -
  let ?su = "if \<not> truthy sub_repo_url \<and> subGitHubURL g \<noteq> [] then Some (subGitHubURL g)
             else sub_repo_url"
  let ?st2 = "st\<lparr>world := w2,
          printed := printed st @
            (if \<not> truthy main_repo_url \<and> mainGitHubURL g \<noteq> []
             then [''Using main repository URL from global variable: '' @ mainGitHubURL g]
             else []) @
            (if \<not> truthy sub_repo_url \<and> subGitHubURL g \<noteq> []
             then [''Using sub repository URL from global variable: '' @ subGitHubURL g]
             else [])\<rparr>"
  let ?rest = "\<lambda>_::unit. then_do (clone_sub_repository os ?su sub_repo_dir)
                 (\<lambda>_. ret (main_repo_dir, sub_repo_dir))"
  from run have run': "then_do (clone_or_initialize_main_repository os u main_repo_dir) ?rest ?st2 = (r, st')"
    by (simp add: setup_repositories_blocks [OF d1 d2] u)
  obtain r1 st1 where b1: "clone_or_initialize_main_repository os u main_repo_dir ?st2 = (r1, st1)"
    by (cases "clone_or_initialize_main_repository os u main_repo_dir ?st2")
  from main_block_outcome [OF b1] absent
  have e1: "issued st1 = issued st @ [(command, cwd, fst (subprocess_run os w2 command cwd))]"
    by (simp add: c cwd)
  show ?thesis
  proof (cases r1)
    case (Inl e)
    with run' b1 have "st' = st1" by (simp add: then_do_def)
    with e1 show ?thesis by simp
  next
    case (Inr x)
    with run' b1 have "then_do (clone_sub_repository os ?su sub_repo_dir)
        (\<lambda>_. ret (main_repo_dir, sub_repo_dir)) st1 = (r, st')"
      by (simp add: then_do_def)
    then obtain r2 where b2: "clone_sub_repository os ?su sub_repo_dir st1 = (r2, st')"
      by (auto simp: then_do_def ret_def split: prod.splits sum.splits)
    from sub_block_outcome [OF b2]
    have "issued st' = issued st1 \<or>
          issued st' = issued st1 @ [(''git clone '' @ fmt ?su @ '' '' @ sub_repo_dir, None,
             fst (subprocess_run os (world st1) (''git clone '' @ fmt ?su @ '' '' @ sub_repo_dir) None))]"
      by (cases "os_path_exists os (world st1) (path_join sub_repo_dir ''.git'')";
          cases "truthy ?su") auto
    with e1 show ?thesis by auto
  qed
qed



section \<open>The policy on a missing URL\<close>

text \<open>
  Claim C4 as the specification states it does not hold: with the shipped globals, no URL
  on the command line and no repository in either directory, the \<open>setup\<close> action
  reports no error. It clones the sub repository from the global sub URL, and it clones the
  main repository from the global main URL instead of initializing it.
\<close>

theorem missing_url_policy_counterexample:
  "args_main_repo (demo_args Setup) = None \<and> args_sub_repo (demo_args Setup) = None \<and>
   \<not> os_path_exists demo_os (world demo_start) (path_join ''main_repo'' ''.git'') \<and>
   \<not> os_path_exists demo_os (world demo_start) (path_join ''sub_repo'' ''.git'') \<and>
   fst (main shipped demo_os (demo_args Setup) demo_start) = Inr () \<and>
   map ev_command (issued (snd (main shipped demo_os (demo_args Setup) demo_start))) =
     [(''git clone '' @ mainGitHubURL shipped @ '' main_repo'', None),
      (''git clone '' @ subGitHubURL shipped @ '' sub_repo'', None),
      (''git remote'', Some ''main_repo''),
      (''git remote add subrepo /work/sub_repo'', Some ''main_repo'')]"
  by code_simp

lemma no_url_available_policy:
  "(\<not> truthy sub_repo_url \<and> subGitHubURL g = [] \<and>
    setup_repositories g os main_repo_url sub_repo_url main_repo_dir sub_repo_dir st = (r, st') \<and>
    \<not> os_path_exists os (world st') (path_join sub_repo_dir ''.git'')
      \<longrightarrow> (\<exists>e. r = Inl e \<and> exit_code e = 1) \<and>
          (\<exists>es. issued st' = issued st @ es \<and> length es \<le> 1 \<and>
             list_all (\<lambda>ev. ev_command ev =
               (let u = (if \<not> truthy main_repo_url \<and> mainGitHubURL g \<noteq> []
                         then Some (mainGitHubURL g) else main_repo_url)
                in if truthy u then (''git clone '' @ fmt u @ '' '' @ main_repo_dir, None)
                   else (''git init'', Some main_repo_dir))) es)) \<and>
   (\<not> truthy u \<and> \<not> os_path_exists os (world st) (path_join sub_repo_dir ''.git'')
      \<longrightarrow> clone_sub_repository os u sub_repo_dir st =
            (Inl (SystemExit 1),
             st\<lparr>printed := printed st @ [''Error: No sub repository URL provided'']\<rparr>)) \<and>
   (args_action a = Setup \<and> \<not> truthy (args_sub_repo a) \<and> subGitHubURL g = []
      \<longrightarrow> main g os a st =
            (Inl (SystemExit 1),
             st\<lparr>printed := printed st @
               [''Error: No sub repository URL provided. Please either set the ''
                @ ''global subGitHubURL or provide --sub-repo'']\<rparr>)) \<and>
   (\<not> truthy main_repo_url \<and> mainGitHubURL g = [] \<and>
    os_makedirs os (world st) main_repo_dir = Some w1 \<and> os_makedirs os w1 sub_repo_dir = Some w2 \<and>
    \<not> os_path_exists os w2 (path_join main_repo_dir ''.git'') \<and>
    setup_repositories g os main_repo_url sub_repo_url main_repo_dir sub_repo_dir st = (r, st')
      \<longrightarrow> (\<exists>es. issued st' = issued st @
             (''git init'', Some main_repo_dir,
              fst (subprocess_run os w2 ''git init'' (Some main_repo_dir))) # es))"
proof (intro conjI impI)
  assume "\<not> truthy u \<and> \<not> os_path_exists os (world st) (path_join sub_repo_dir ''.git'')"
  then show "clone_sub_repository os u sub_repo_dir st =
      (Inl (SystemExit 1), st\<lparr>printed := printed st @ [''Error: No sub repository URL provided'']\<rparr>)"
    by (simp add: clone_sub_repository_def prog_defs)
next
  assume "args_action a = Setup \<and> \<not> truthy (args_sub_repo a) \<and> subGitHubURL g = []"
  then show "main g os a st =
      (Inl (SystemExit 1),
       st\<lparr>printed := printed st @
         [''Error: No sub repository URL provided. Please either set the ''
          @ ''global subGitHubURL or provide --sub-repo'']\<rparr>)"
    by (simp add: main_def prog_defs)
next
  assume a: "\<not> truthy main_repo_url \<and> mainGitHubURL g = [] \<and>
    os_makedirs os (world st) main_repo_dir = Some w1 \<and> os_makedirs os w1 sub_repo_dir = Some w2 \<and>
    \<not> os_path_exists os w2 (path_join main_repo_dir ''.git'') \<and>
    setup_repositories g os main_repo_url sub_repo_url main_repo_dir sub_repo_dir st = (r, st')"
  with setup_repositories_first_command [of os st main_repo_dir w1 sub_repo_dir w2 g
      main_repo_url sub_repo_url r st' main_repo_url "''git init''" "Some main_repo_dir"]
  show "\<exists>es. issued st' = issued st @
      (''git init'', Some main_repo_dir, fst (subprocess_run os w2 ''git init'' (Some main_repo_dir))) # es"
    by auto
next
  let ?u = "if \<not> truthy main_repo_url \<and> mainGitHubURL g \<noteq> [] then Some (mainGitHubURL g)
            else main_repo_url"
  let ?c = "if truthy ?u then (''git clone '' @ fmt ?u @ '' '' @ main_repo_dir, None)
            else (''git init'', Some main_repo_dir)"
  assume a: "\<not> truthy sub_repo_url \<and> subGitHubURL g = [] \<and>
    setup_repositories g os main_repo_url sub_repo_url main_repo_dir sub_repo_dir st = (r, st') \<and>
    \<not> os_path_exists os (world st') (path_join sub_repo_dir ''.git'')"
  then have run: "setup_repositories g os main_repo_url sub_repo_url main_repo_dir sub_repo_dir st = (r, st')"
    and nourl: "\<not> truthy sub_repo_url" "subGitHubURL g = []"
    and absent: "\<not> os_path_exists os (world st') (path_join sub_repo_dir ''.git'')"
    by simp_all
  have "(\<exists>e. r = Inl e \<and> exit_code e = 1) \<and>
        (\<exists>es. issued st' = issued st @ es \<and> length es \<le> 1 \<and> list_all (\<lambda>ev. ev_command ev = ?c) es)"
  proof (cases "os_makedirs os (world st) main_repo_dir")
    case None
    with run setup_repositories_no_directory(1) [OF None] show ?thesis by auto
  next
    case (Some w1)
    show ?thesis
    proof (cases "os_makedirs os w1 sub_repo_dir")
      case None
      with run setup_repositories_no_directory(2) [OF Some None] show ?thesis by auto
    next
      case w2: (Some w2)
      let ?st2 = "st\<lparr>world := w2,
          printed := printed st @
            (if \<not> truthy main_repo_url \<and> mainGitHubURL g \<noteq> []
             then [''Using main repository URL from global variable: '' @ mainGitHubURL g]
             else [])\<rparr>"
      from run nourl have run': "then_do (clone_or_initialize_main_repository os ?u main_repo_dir)
          (\<lambda>_. then_do (clone_sub_repository os sub_repo_url sub_repo_dir)
                  (\<lambda>_. ret (main_repo_dir, sub_repo_dir))) ?st2 = (r, st')"
        by (simp add: setup_repositories_blocks [OF Some w2])
      obtain r1 st1 where b1: "clone_or_initialize_main_repository os ?u main_repo_dir ?st2 = (r1, st1)"
        by (cases "clone_or_initialize_main_repository os ?u main_repo_dir ?st2")
      from main_block_outcome [OF b1]
      have e1: "\<exists>es. issued st1 = issued st @ es \<and> length es \<le> 1 \<and>
          list_all (\<lambda>ev. ev_command ev = ?c) es"
        and x1: "\<forall>e. r1 = Inl e \<longrightarrow> exit_code e = 1"
        by (cases "os_path_exists os w2 (path_join main_repo_dir ''.git'')"; cases "truthy ?u"; simp)+
      show ?thesis
      proof (cases r1)
        case (Inl e)
        with run' b1 have "r = Inl e" "st' = st1" by (simp_all add: then_do_def)
        with e1 x1 Inl show ?thesis by simp
      next
        case (Inr x)
        with run' b1 have "then_do (clone_sub_repository os sub_repo_url sub_repo_dir)
            (\<lambda>_. ret (main_repo_dir, sub_repo_dir)) st1 = (r, st')"
          by (simp add: then_do_def)
        then obtain r2 st2 where b2: "clone_sub_repository os sub_repo_url sub_repo_dir st1 = (r2, st2)"
          and fin: "(case r2 of Inl e \<Rightarrow> (Inl e, st2) | Inr _ \<Rightarrow> (Inr (main_repo_dir, sub_repo_dir), st2))
                      = (r, st')"
          by (auto simp: then_do_def ret_def split: prod.splits sum.splits)
        show ?thesis
        proof (cases "os_path_exists os (world st1) (path_join sub_repo_dir ''.git'')")
          case True
          with sub_block_outcome [OF b2] fin have "world st' = world st1" by auto
          with True absent show ?thesis by simp
        next
          case False
          with sub_block_outcome [OF b2] nourl fin
          have "r = Inl (SystemExit 1)" "issued st' = issued st1" by auto
          with e1 show ?thesis by simp
        qed
      qed
    qed
  qed
  then show "\<exists>e. r = Inl e \<and> exit_code e = 1"
    and "\<exists>es. issued st' = issued st @ es \<and> length es \<le> 1 \<and>
           list_all (\<lambda>ev. ev_command ev =
             (let u = (if \<not> truthy main_repo_url \<and> mainGitHubURL g \<noteq> []
                       then Some (mainGitHubURL g) else main_repo_url)
              in if truthy u then (''git clone '' @ fmt u @ '' '' @ main_repo_dir, None)
                 else (''git init'', Some main_repo_dir))) es"
    by (simp_all add: Let_def)
qed

text \<open>Where no URL is given and the global one is not empty, the clone is from the global one.\<close>

lemma setup_repositories_main_from_global:
  assumes "\<not> truthy main_repo_url" "mainGitHubURL g \<noteq> []"
    and d1: "os_makedirs os (world st) main_repo_dir = Some w1"
    and d2: "os_makedirs os w1 sub_repo_dir = Some w2"
    and absent: "\<not> os_path_exists os w2 (path_join main_repo_dir ''.git'')"
    and run: "setup_repositories g os main_repo_url sub_repo_url main_repo_dir sub_repo_dir st = (r, st')"
  shows "\<exists>es. issued st' = issued st @
             (''git clone '' @ mainGitHubURL g @ '' '' @ main_repo_dir, None,
              fst (subprocess_run os w2 (''git clone '' @ mainGitHubURL g @ '' '' @ main_repo_dir)
                     None)) # es"
  using setup_repositories_commands [OF d1 d2 run refl refl refl refl refl refl refl] assms(1,2) absent
  by simp

lemma setup_repositories_sub_from_global:
  assumes "\<not> truthy sub_repo_url" "subGitHubURL g \<noteq> []"
    and d1: "os_makedirs os (world st) main_repo_dir = Some w1"
    and d2: "os_makedirs os w1 sub_repo_dir = Some w2"
    and run: "setup_repositories g os main_repo_url sub_repo_url main_repo_dir sub_repo_dir st = (r, st')"
    and mu: "mu = (if \<not> truthy main_repo_url \<and> mainGitHubURL g \<noteq> [] then Some (mainGitHubURL g)
          else main_repo_url)"
    and mc: "mc = (if truthy mu then ''git clone '' @ fmt mu @ '' '' @ main_repo_dir else ''git init'')"
    and mcwd: "mcwd = (if truthy mu then None else Some main_repo_dir)"
    and w3: "w3 = (if os_path_exists os w2 (path_join main_repo_dir ''.git'') then w2
          else snd (subprocess_run os w2 mc mcwd))"
    and ok: "os_path_exists os w2 (path_join main_repo_dir ''.git'') \<or>
     ev_ok (mc, mcwd, fst (subprocess_run os w2 mc mcwd))"
    and absent: "\<not> os_path_exists os w3 (path_join sub_repo_dir ''.git'')"
  shows "issued st' = issued st @
            (if os_path_exists os w2 (path_join main_repo_dir ''.git'') then []
             else [(mc, mcwd, fst (subprocess_run os w2 mc mcwd))]) @
            [(''git clone '' @ subGitHubURL g @ '' '' @ sub_repo_dir, None,
              fst (subprocess_run os w3 (''git clone '' @ subGitHubURL g @ '' '' @ sub_repo_dir)
                     None))]"
  using setup_repositories_commands [OF d1 d2 run mu refl mc mcwd refl refl refl] assms(1,2) ok absent
  by (simp add: w3)

lemma main_setup_from_globals:
  assumes act: "args_action a = Setup"
    and nomain: "\<not> truthy (args_main_repo a)" and nosub: "\<not> truthy (args_sub_repo a)"
    and gm: "mainGitHubURL g \<noteq> []" and gs: "subGitHubURL g \<noteq> []"
    and d1: "os_makedirs os (world st) (args_main_dir a) = Some w1"
    and d2: "os_makedirs os w1 (args_sub_dir a) = Some w2"
    and absent_main: "\<not> os_path_exists os w2 (path_join (args_main_dir a) ''.git'')"
    and cloned: "subprocess_run os w2 (''git clone '' @ mainGitHubURL g @ '' '' @ args_main_dir a) None =
      (Completed 0 out1 err1, w3)"
    and absent_sub: "\<not> os_path_exists os w3 (path_join (args_sub_dir a) ''.git'')"
    and run: "main g os a st = (r, st')"
  shows "\<exists>es. issued st' = issued st @
             (''git clone '' @ mainGitHubURL g @ '' '' @ args_main_dir a, None, Completed 0 out1 err1) #
             (''git clone '' @ subGitHubURL g @ '' '' @ args_sub_dir a, None,
              fst (subprocess_run os w3 (''git clone '' @ subGitHubURL g @ '' '' @ args_sub_dir a)
                     None)) # es"
proof -
  let ?provision = "setup_repositories g os (Some (mainGitHubURL g)) (Some (subGitHubURL g))
      (args_main_dir a) (args_sub_dir a)"
  let ?k = "\<lambda>(main_repo_dir, sub_repo_dir).
      then_do (add_sub_repo_as_remote os main_repo_dir sub_repo_dir ''subrepo'')
        (\<lambda>_. print ''Repositories setup complete!'')"
  from run act nomain nosub gs have run': "then_do ?provision ?k st = (r, st')"
    by (simp add: main_def)
  obtain r1 st1 where s: "?provision st = (r1, st1)" by (cases "?provision st")
  have k: "\<And>x. fatal_stop (?k x)"
    by (intro fatal_stop_intros fatal_stop_add_sub_repo_as_remote)
  from then_do_issued [OF run' s k] obtain es where es: "issued st' = issued st1 @ es"
    by blast
  from setup_repositories_commands [OF d1 d2 s refl refl refl refl refl refl refl]
    gm gs absent_main absent_sub cloned
  have "issued st1 = issued st @
      [(''git clone '' @ mainGitHubURL g @ '' '' @ args_main_dir a, None, Completed 0 out1 err1),
       (''git clone '' @ subGitHubURL g @ '' '' @ args_sub_dir a, None,
        fst (subprocess_run os w3 (''git clone '' @ subGitHubURL g @ '' '' @ args_sub_dir a) None))]"
    by simp
  with es show ?thesis by simp
qed

text \<open>
  Claim C4, amended: the policy holds where no URL is available, that is, none is given
  and the global default is empty. Without a sub URL and without a \<open>.git\<close> in the sub
  directory at the end, \<open>setup_repositories\<close> ended with exit code 1 and issued at most
  the command of the main repository, no clone of the sub repository; its block for the
  sub repository prints the error and exits with code 1, and \<open>main\<close> refuses the
  \<open>setup\<close> action before anything runs. Without a main URL and without a \<open>.git\<close> in
  the main directory, the first command is \<open>git init\<close> in the main directory. Where a
  URL is not given and the global default is not empty, the repository is cloned from the
  global default: the main repository by the first command where its directory has no
  \<open>.git\<close>, the sub repository by the command after that of the main repository where
  that went well and the sub directory has no \<open>.git\<close>; so the \<open>setup\<close> action with no
  URL on the command line starts with the two clones from the two globals.
\<close>

theorem missing_url_policy:
  "(\<not> truthy main_repo_url \<and> mainGitHubURL g \<noteq> [] \<and>
    os_makedirs os (world st) main_repo_dir = Some w1 \<and> os_makedirs os w1 sub_repo_dir = Some w2 \<and>
    \<not> os_path_exists os w2 (path_join main_repo_dir ''.git'') \<and>
    setup_repositories g os main_repo_url sub_repo_url main_repo_dir sub_repo_dir st = (r, st')
      \<longrightarrow> (\<exists>es. issued st' = issued st @
             (''git clone '' @ mainGitHubURL g @ '' '' @ main_repo_dir, None,
              fst (subprocess_run os w2 (''git clone '' @ mainGitHubURL g @ '' '' @ main_repo_dir)
                     None)) # es)) \<and>
   (\<not> truthy sub_repo_url \<and> subGitHubURL g \<noteq> [] \<and>
    os_makedirs os (world st) main_repo_dir = Some w1 \<and> os_makedirs os w1 sub_repo_dir = Some w2 \<and>
    setup_repositories g os main_repo_url sub_repo_url main_repo_dir sub_repo_dir st = (r, st') \<and>
    mu = (if \<not> truthy main_repo_url \<and> mainGitHubURL g \<noteq> [] then Some (mainGitHubURL g)
          else main_repo_url) \<and>
    mc = (if truthy mu then ''git clone '' @ fmt mu @ '' '' @ main_repo_dir else ''git init'') \<and>
    mcwd = (if truthy mu then None else Some main_repo_dir) \<and>
    w3 = (if os_path_exists os w2 (path_join main_repo_dir ''.git'') then w2
          else snd (subprocess_run os w2 mc mcwd)) \<and>
    (os_path_exists os w2 (path_join main_repo_dir ''.git'') \<or>
     ev_ok (mc, mcwd, fst (subprocess_run os w2 mc mcwd))) \<and>
    \<not> os_path_exists os w3 (path_join sub_repo_dir ''.git'')
      \<longrightarrow> issued st' = issued st @
            (if os_path_exists os w2 (path_join main_repo_dir ''.git'') then []
             else [(mc, mcwd, fst (subprocess_run os w2 mc mcwd))]) @
            [(''git clone '' @ subGitHubURL g @ '' '' @ sub_repo_dir, None,
              fst (subprocess_run os w3 (''git clone '' @ subGitHubURL g @ '' '' @ sub_repo_dir)
                     None))]) \<and>
   (args_action a = Setup \<and> \<not> truthy (args_main_repo a) \<and> \<not> truthy (args_sub_repo a) \<and>
    mainGitHubURL g \<noteq> [] \<and> subGitHubURL g \<noteq> [] \<and>
    os_makedirs os (world st) (args_main_dir a) = Some w1 \<and>
    os_makedirs os w1 (args_sub_dir a) = Some w2 \<and>
    \<not> os_path_exists os w2 (path_join (args_main_dir a) ''.git'') \<and>
    subprocess_run os w2 (''git clone '' @ mainGitHubURL g @ '' '' @ args_main_dir a) None =
      (Completed 0 out1 err1, w3) \<and>
    \<not> os_path_exists os w3 (path_join (args_sub_dir a) ''.git'') \<and>
    main g os a st = (r', st'')
      \<longrightarrow> (\<exists>es. issued st'' = issued st @
             (''git clone '' @ mainGitHubURL g @ '' '' @ args_main_dir a, None, Completed 0 out1 err1) #
             (''git clone '' @ subGitHubURL g @ '' '' @ args_sub_dir a, None,
              fst (subprocess_run os w3 (''git clone '' @ subGitHubURL g @ '' '' @ args_sub_dir a)
                     None)) # es)) \<and>
   (\<not> truthy sub_repo_url \<and> subGitHubURL g = [] \<and>
    setup_repositories g os main_repo_url sub_repo_url main_repo_dir sub_repo_dir st = (r, st') \<and>
    \<not> os_path_exists os (world st') (path_join sub_repo_dir ''.git'')
      \<longrightarrow> (\<exists>e. r = Inl e \<and> exit_code e = 1) \<and>
          (\<exists>es. issued st' = issued st @ es \<and> length es \<le> 1 \<and>
             list_all (\<lambda>ev. ev_command ev =
               (let u = (if \<not> truthy main_repo_url \<and> mainGitHubURL g \<noteq> []
                         then Some (mainGitHubURL g) else main_repo_url)
                in if truthy u then (''git clone '' @ fmt u @ '' '' @ main_repo_dir, None)
                   else (''git init'', Some main_repo_dir))) es)) \<and>
   (\<not> truthy u \<and> \<not> os_path_exists os (world st) (path_join sub_repo_dir ''.git'')
      \<longrightarrow> clone_sub_repository os u sub_repo_dir st =
            (Inl (SystemExit 1),
             st\<lparr>printed := printed st @ [''Error: No sub repository URL provided'']\<rparr>)) \<and>
   (args_action a = Setup \<and> \<not> truthy (args_sub_repo a) \<and> subGitHubURL g = []
      \<longrightarrow> main g os a st =
            (Inl (SystemExit 1),
             st\<lparr>printed := printed st @
               [''Error: No sub repository URL provided. Please either set the ''
                @ ''global subGitHubURL or provide --sub-repo'']\<rparr>)) \<and>
   (\<not> truthy main_repo_url \<and> mainGitHubURL g = [] \<and>
    os_makedirs os (world st) main_repo_dir = Some w1 \<and> os_makedirs os w1 sub_repo_dir = Some w2 \<and>
    \<not> os_path_exists os w2 (path_join main_repo_dir ''.git'') \<and>
    setup_repositories g os main_repo_url sub_repo_url main_repo_dir sub_repo_dir st = (r, st')
      \<longrightarrow> (\<exists>es. issued st' = issued st @
             (''git init'', Some main_repo_dir,
              fst (subprocess_run os w2 ''git init'' (Some main_repo_dir))) # es))"
proof -
  have a: "\<not> truthy main_repo_url \<and> mainGitHubURL g \<noteq> [] \<and>
    os_makedirs os (world st) main_repo_dir = Some w1 \<and> os_makedirs os w1 sub_repo_dir = Some w2 \<and>
    \<not> os_path_exists os w2 (path_join main_repo_dir ''.git'') \<and>
    setup_repositories g os main_repo_url sub_repo_url main_repo_dir sub_repo_dir st = (r, st')
      \<longrightarrow> (\<exists>es. issued st' = issued st @
             (''git clone '' @ mainGitHubURL g @ '' '' @ main_repo_dir, None,
              fst (subprocess_run os w2 (''git clone '' @ mainGitHubURL g @ '' '' @ main_repo_dir)
                     None)) # es)"
    by (intro impI, elim conjE, rule setup_repositories_main_from_global)
  have b: "\<not> truthy sub_repo_url \<and> subGitHubURL g \<noteq> [] \<and>
    os_makedirs os (world st) main_repo_dir = Some w1 \<and> os_makedirs os w1 sub_repo_dir = Some w2 \<and>
    setup_repositories g os main_repo_url sub_repo_url main_repo_dir sub_repo_dir st = (r, st') \<and>
    mu = (if \<not> truthy main_repo_url \<and> mainGitHubURL g \<noteq> [] then Some (mainGitHubURL g)
          else main_repo_url) \<and>
    mc = (if truthy mu then ''git clone '' @ fmt mu @ '' '' @ main_repo_dir else ''git init'') \<and>
    mcwd = (if truthy mu then None else Some main_repo_dir) \<and>
    w3 = (if os_path_exists os w2 (path_join main_repo_dir ''.git'') then w2
          else snd (subprocess_run os w2 mc mcwd)) \<and>
    (os_path_exists os w2 (path_join main_repo_dir ''.git'') \<or>
     ev_ok (mc, mcwd, fst (subprocess_run os w2 mc mcwd))) \<and>
    \<not> os_path_exists os w3 (path_join sub_repo_dir ''.git'')
      \<longrightarrow> issued st' = issued st @
            (if os_path_exists os w2 (path_join main_repo_dir ''.git'') then []
             else [(mc, mcwd, fst (subprocess_run os w2 mc mcwd))]) @
            [(''git clone '' @ subGitHubURL g @ '' '' @ sub_repo_dir, None,
              fst (subprocess_run os w3 (''git clone '' @ subGitHubURL g @ '' '' @ sub_repo_dir)
                     None))]"
    by (intro impI, elim conjE, rule setup_repositories_sub_from_global)
  have c: "args_action a = Setup \<and> \<not> truthy (args_main_repo a) \<and> \<not> truthy (args_sub_repo a) \<and>
    mainGitHubURL g \<noteq> [] \<and> subGitHubURL g \<noteq> [] \<and>
    os_makedirs os (world st) (args_main_dir a) = Some w1 \<and>
    os_makedirs os w1 (args_sub_dir a) = Some w2 \<and>
    \<not> os_path_exists os w2 (path_join (args_main_dir a) ''.git'') \<and>
    subprocess_run os w2 (''git clone '' @ mainGitHubURL g @ '' '' @ args_main_dir a) None =
      (Completed 0 out1 err1, w3) \<and>
    \<not> os_path_exists os w3 (path_join (args_sub_dir a) ''.git'') \<and>
    main g os a st = (r', st'')
      \<longrightarrow> (\<exists>es. issued st'' = issued st @
             (''git clone '' @ mainGitHubURL g @ '' '' @ args_main_dir a, None, Completed 0 out1 err1) #
             (''git clone '' @ subGitHubURL g @ '' '' @ args_sub_dir a, None,
              fst (subprocess_run os w3 (''git clone '' @ subGitHubURL g @ '' '' @ args_sub_dir a)
                     None)) # es)"
    by (intro impI, elim conjE, rule main_setup_from_globals)
  have d: "(\<not> truthy sub_repo_url \<and> subGitHubURL g = [] \<and>
    setup_repositories g os main_repo_url sub_repo_url main_repo_dir sub_repo_dir st = (r, st') \<and>
    \<not> os_path_exists os (world st') (path_join sub_repo_dir ''.git'')
      \<longrightarrow> (\<exists>e. r = Inl e \<and> exit_code e = 1) \<and>
          (\<exists>es. issued st' = issued st @ es \<and> length es \<le> 1 \<and>
             list_all (\<lambda>ev. ev_command ev =
               (let u = (if \<not> truthy main_repo_url \<and> mainGitHubURL g \<noteq> []
                         then Some (mainGitHubURL g) else main_repo_url)
                in if truthy u then (''git clone '' @ fmt u @ '' '' @ main_repo_dir, None)
                   else (''git init'', Some main_repo_dir))) es)) \<and>
   (\<not> truthy u \<and> \<not> os_path_exists os (world st) (path_join sub_repo_dir ''.git'')
      \<longrightarrow> clone_sub_repository os u sub_repo_dir st =
            (Inl (SystemExit 1),
             st\<lparr>printed := printed st @ [''Error: No sub repository URL provided'']\<rparr>)) \<and>
   (args_action a = Setup \<and> \<not> truthy (args_sub_repo a) \<and> subGitHubURL g = []
      \<longrightarrow> main g os a st =
            (Inl (SystemExit 1),
             st\<lparr>printed := printed st @
               [''Error: No sub repository URL provided. Please either set the ''
                @ ''global subGitHubURL or provide --sub-repo'']\<rparr>)) \<and>
   (\<not> truthy main_repo_url \<and> mainGitHubURL g = [] \<and>
    os_makedirs os (world st) main_repo_dir = Some w1 \<and> os_makedirs os w1 sub_repo_dir = Some w2 \<and>
    \<not> os_path_exists os w2 (path_join main_repo_dir ''.git'') \<and>
    setup_repositories g os main_repo_url sub_repo_url main_repo_dir sub_repo_dir st = (r, st')
      \<longrightarrow> (\<exists>es. issued st' = issued st @
             (''git init'', Some main_repo_dir,
              fst (subprocess_run os w2 ''git init'' (Some main_repo_dir))) # es))"
    by (rule no_url_available_policy)
  from conjI [OF a conjI [OF b conjI [OF c d]]] show ?thesis .
qed

text \<open>
  In the simulated environment with both globals emptied and no URL given,
  \<open>setup_repositories\<close> initializes the main repository and then exits with code 1,
  leaving the sub directory without a repository. With the shipped globals and no URL
  given it clones the main and then the sub repository from the two global URLs, and so
  does the \<open>setup\<close> action.
\<close>

theorem missing_url_policy_witness:
  "fst (setup_repositories (shipped\<lparr>mainGitHubURL := [], subGitHubURL := []\<rparr>) demo_os None None
          ''main_repo'' ''sub_repo'' demo_start) = Inl (SystemExit 1) \<and>
   map ev_command
     (issued (snd (setup_repositories (shipped\<lparr>mainGitHubURL := [], subGitHubURL := []\<rparr>) demo_os
        None None ''main_repo'' ''sub_repo'' demo_start))) = [(''git init'', Some ''main_repo'')] \<and>
   \<not> os_path_exists demo_os
       (world (snd (setup_repositories (shipped\<lparr>mainGitHubURL := [], subGitHubURL := []\<rparr>) demo_os
          None None ''main_repo'' ''sub_repo'' demo_start)))
       (path_join ''sub_repo'' ''.git'') \<and>
   (\<exists>es. issued (snd (setup_repositories (shipped\<lparr>mainGitHubURL := [], subGitHubURL := []\<rparr>) demo_os
             None None ''main_repo'' ''sub_repo'' demo_start)) =
          issued demo_start @
            (''git init'', Some ''main_repo'',
             fst (subprocess_run demo_os ((world demo_start)\<lparr>dw_dirs := [''main_repo'', ''sub_repo'']\<rparr>)
                    ''git init'' (Some ''main_repo''))) # es) \<and>
   clone_sub_repository demo_os None ''sub_repo'' demo_start =
     (Inl (SystemExit 1),
      demo_start\<lparr>printed := printed demo_start @ [''Error: No sub repository URL provided'']\<rparr>) \<and>
   main (shipped\<lparr>mainGitHubURL := [], subGitHubURL := []\<rparr>) demo_os (demo_args Setup) demo_start =
     (Inl (SystemExit 1),
      demo_start\<lparr>printed := printed demo_start @
        [''Error: No sub repository URL provided. Please either set the ''
         @ ''global subGitHubURL or provide --sub-repo'']\<rparr>) \<and>
   (\<exists>es. issued demo_provisioned =
          issued demo_start @
            (''git clone '' @ mainGitHubURL shipped @ '' '' @ ''main_repo'', None,
             fst (subprocess_run demo_os ((world demo_start)\<lparr>dw_dirs := [''main_repo'', ''sub_repo'']\<rparr>)
                    (''git clone '' @ mainGitHubURL shipped @ '' '' @ ''main_repo'') None)) # es) \<and>
   issued demo_provisioned =
     [(''git clone '' @ mainGitHubURL shipped @ '' '' @ ''main_repo'', None, Completed 0 [] []),
      (''git clone '' @ subGitHubURL shipped @ '' '' @ ''sub_repo'', None, Completed 0 [] [])] \<and>
   (\<exists>es. map ev_command (issued (snd (main shipped demo_os (demo_args Setup) demo_start))) =
          (''git clone '' @ mainGitHubURL shipped @ '' '' @ args_main_dir (demo_args Setup), None) #
          (''git clone '' @ subGitHubURL shipped @ '' '' @ args_sub_dir (demo_args Setup), None) # es)"
proof -
  let ?g0 = "shipped\<lparr>mainGitHubURL := [], subGitHubURL := []\<rparr>"
  let ?w1 = "(world demo_start)\<lparr>dw_dirs := [''main_repo'']\<rparr>"
  let ?w2 = "(world demo_start)\<lparr>dw_dirs := [''main_repo'', ''sub_repo'']\<rparr>"
  let ?run = "setup_repositories ?g0 demo_os None None ''main_repo'' ''sub_repo'' demo_start"
  have run: "?run = (fst ?run, snd ?run)" by simp
  have r: "fst ?run = Inl (SystemExit 1)" by code_simp
  have c: "map ev_command (issued (snd ?run)) = [(''git init'', Some ''main_repo'')]" by code_simp
  have absent_sub: "\<not> os_path_exists demo_os (world (snd ?run)) (path_join ''sub_repo'' ''.git'')"
    by code_simp
  have absent_sub0: "\<not> os_path_exists demo_os (world demo_start) (path_join ''sub_repo'' ''.git'')"
    by code_simp
  have d1: "os_makedirs demo_os (world demo_start) ''main_repo'' = Some ?w1" by code_simp
  have d2: "os_makedirs demo_os ?w1 ''sub_repo'' = Some ?w2" by code_simp
  have absent_main: "\<not> os_path_exists demo_os ?w2 (path_join ''main_repo'' ''.git'')" by code_simp
  have g: "subGitHubURL ?g0 = []" "mainGitHubURL ?g0 = []" by simp_all
  have a: "args_action (demo_args Setup) = Setup" "\<not> truthy (args_sub_repo (demo_args Setup))"
    by (simp_all add: demo_args_def)
  note t = missing_url_policy [where g = ?g0 and os = demo_os and sub_repo_url = None
      and main_repo_url = None and main_repo_dir = "''main_repo''" and sub_repo_dir = "''sub_repo''"
      and st = demo_start and r = "fst ?run" and st' = "snd ?run" and u = None
      and a = "demo_args Setup" and ?w1.0 = ?w1 and ?w2.0 = ?w2,
      THEN conjunct2, THEN conjunct2, THEN conjunct2]
  from t run g absent_sub have "\<exists>e. fst ?run = Inl e \<and> exit_code e = 1" by simp
  from t run g d1 d2 absent_main have i: "\<exists>es. issued (snd ?run) =
      issued demo_start @
        (''git init'', Some ''main_repo'', fst (subprocess_run demo_os ?w2 ''git init'' (Some ''main_repo''))) # es"
    by simp
  from t absent_sub0 have s: "clone_sub_repository demo_os None ''sub_repo'' demo_start =
     (Inl (SystemExit 1),
      demo_start\<lparr>printed := printed demo_start @ [''Error: No sub repository URL provided'']\<rparr>)"
    by simp
  from t a g have m: "main ?g0 demo_os (demo_args Setup) demo_start =
     (Inl (SystemExit 1),
      demo_start\<lparr>printed := printed demo_start @
        [''Error: No sub repository URL provided. Please either set the ''
         @ ''global subGitHubURL or provide --sub-repo'']\<rparr>)"
    by simp
  let ?rs = "setup_repositories shipped demo_os None None ''main_repo'' ''sub_repo'' demo_start"
  let ?rm = "main shipped demo_os (demo_args Setup) demo_start"
  let ?mu = "if \<not> truthy None \<and> mainGitHubURL shipped \<noteq> [] then Some (mainGitHubURL shipped) else None"
  let ?mc = "if truthy ?mu then ''git clone '' @ fmt ?mu @ '' '' @ ''main_repo'' else ''git init''"
  let ?mcwd = "if truthy ?mu then None else Some ''main_repo''"
  let ?w3 = "if os_path_exists demo_os ?w2 (path_join ''main_repo'' ''.git'') then ?w2
             else snd (subprocess_run demo_os ?w2 ?mc ?mcwd)"
  let ?cm = "''git clone '' @ mainGitHubURL shipped @ '' '' @ args_main_dir (demo_args Setup)"
  let ?w3' = "snd (subprocess_run demo_os ?w2 ?cm None)"
  have rs: "?rs = (fst ?rs, demo_provisioned)" by (simp add: demo_provisioned_def)
  have rm: "?rm = (fst ?rm, snd ?rm)" by simp
  have gs: "\<not> truthy None" "mainGitHubURL shipped \<noteq> []" "subGitHubURL shipped \<noteq> []"
    by (simp_all add: shipped_def)
  have ok: "os_path_exists demo_os ?w2 (path_join ''main_repo'' ''.git'') \<or>
      ev_ok (?mc, ?mcwd, fst (subprocess_run demo_os ?w2 ?mc ?mcwd))"
    by code_simp
  have absent3: "\<not> os_path_exists demo_os ?w3 (path_join ''sub_repo'' ''.git'')"
    by code_simp
  have ev: "issued demo_start @
      (if os_path_exists demo_os ?w2 (path_join ''main_repo'' ''.git'') then []
       else [(?mc, ?mcwd, fst (subprocess_run demo_os ?w2 ?mc ?mcwd))]) @
      [(''git clone '' @ subGitHubURL shipped @ '' '' @ ''sub_repo'', None,
        fst (subprocess_run demo_os ?w3 (''git clone '' @ subGitHubURL shipped @ '' '' @ ''sub_repo'') None))] =
      [(''git clone '' @ mainGitHubURL shipped @ '' '' @ ''main_repo'', None, Completed 0 [] []),
       (''git clone '' @ subGitHubURL shipped @ '' '' @ ''sub_repo'', None, Completed 0 [] [])]"
    by code_simp
  have a9: "args_action (demo_args Setup) = Setup" "\<not> truthy (args_main_repo (demo_args Setup))"
      "\<not> truthy (args_sub_repo (demo_args Setup))"
    by (simp_all add: demo_args_def)
  have d1': "os_makedirs demo_os (world demo_start) (args_main_dir (demo_args Setup)) = Some ?w1"
    by code_simp
  have d2': "os_makedirs demo_os ?w1 (args_sub_dir (demo_args Setup)) = Some ?w2"
    by code_simp
  have absent_main': "\<not> os_path_exists demo_os ?w2 (path_join (args_main_dir (demo_args Setup)) ''.git'')"
    by code_simp
  have cloned: "subprocess_run demo_os ?w2 ?cm None = (Completed 0 [] [], ?w3')"
    by code_simp
  have absent_sub': "\<not> os_path_exists demo_os ?w3' (path_join (args_sub_dir (demo_args Setup)) ''.git'')"
    by code_simp
  note n7 = missing_url_policy [where g = shipped and os = demo_os and sub_repo_url = None
      and main_repo_url = None and main_repo_dir = "''main_repo''" and sub_repo_dir = "''sub_repo''"
      and st = demo_start and r = "fst ?rs" and st' = demo_provisioned
      and ?w1.0 = ?w1 and ?w2.0 = ?w2, THEN conjunct1]
  from n7 [THEN mp, OF conjI [OF gs(1) conjI [OF gs(2) conjI [OF d1 conjI [OF d2
      conjI [OF absent_main rs]]]]]]
  have i7: "\<exists>es. issued demo_provisioned =
          issued demo_start @
            (''git clone '' @ mainGitHubURL shipped @ '' '' @ ''main_repo'', None,
             fst (subprocess_run demo_os ?w2
                    (''git clone '' @ mainGitHubURL shipped @ '' '' @ ''main_repo'') None)) # es" .
  note n8 = missing_url_policy [where g = shipped and os = demo_os and sub_repo_url = None
      and main_repo_url = None and main_repo_dir = "''main_repo''" and sub_repo_dir = "''sub_repo''"
      and st = demo_start and r = "fst ?rs" and st' = demo_provisioned
      and ?w1.0 = ?w1 and ?w2.0 = ?w2 and mu = ?mu and mc = ?mc and mcwd = ?mcwd and ?w3.0 = ?w3,
      THEN conjunct2, THEN conjunct1]
  from n8 [THEN mp, OF conjI [OF gs(1) conjI [OF gs(3) conjI [OF d1 conjI [OF d2 conjI [OF rs
      conjI [OF refl conjI [OF refl conjI [OF refl conjI [OF refl conjI [OF ok absent3]]]]]]]]]]]
  have i8: "issued demo_provisioned =
     [(''git clone '' @ mainGitHubURL shipped @ '' '' @ ''main_repo'', None, Completed 0 [] []),
      (''git clone '' @ subGitHubURL shipped @ '' '' @ ''sub_repo'', None, Completed 0 [] [])]"
    unfolding ev .
  note n9 = missing_url_policy [where g = shipped and os = demo_os and st = demo_start
      and a = "demo_args Setup" and ?w1.0 = ?w1 and ?w2.0 = ?w2 and ?w3.0 = ?w3'
      and ?out1.0 = "[]" and ?err1.0 = "[]" and r' = "fst ?rm" and st'' = "snd ?rm",
      THEN conjunct2, THEN conjunct2, THEN conjunct1]
  from n9 [THEN mp, OF conjI [OF a9(1) conjI [OF a9(2) conjI [OF a9(3) conjI [OF gs(2)
      conjI [OF gs(3) conjI [OF d1' conjI [OF d2' conjI [OF absent_main' conjI [OF cloned
      conjI [OF absent_sub' rm]]]]]]]]]]]
  obtain es where "issued (snd ?rm) = issued demo_start @
      (?cm, None, Completed 0 [] []) #
      (''git clone '' @ subGitHubURL shipped @ '' '' @ args_sub_dir (demo_args Setup), None,
       fst (subprocess_run demo_os ?w3'
         (''git clone '' @ subGitHubURL shipped @ '' '' @ args_sub_dir (demo_args Setup)) None)) # es"
    by blast
  then have "map ev_command (issued (snd ?rm)) =
      (?cm, None) #
      (''git clone '' @ subGitHubURL shipped @ '' '' @ args_sub_dir (demo_args Setup), None) #
      map ev_command es"
    by (simp add: demo_start_def)
  then have i9: "\<exists>es. map ev_command (issued (snd ?rm)) =
      (?cm, None) #
      (''git clone '' @ subGitHubURL shipped @ '' '' @ args_sub_dir (demo_args Setup), None) # es"
    by (rule exI)
  from r c absent_sub i s m i7 i8 i9 show ?thesis by blast
qed

section \<open>Linking the sub repository as a remote\<close>

text \<open>Stripping a text does not change its words.\<close>

lemma split_acc_leading: "split_acc [] (dropWhile isspace s) = split_acc [] s"
  by (induction s) auto

lemma split_acc_spaces: "\<forall>c \<in> set ws. isspace c \<Longrightarrow> split_acc cur ws = (if cur = [] then [] else [cur])"
  by (induction ws arbitrary: cur) auto

lemma split_acc_trailing: "\<forall>c \<in> set ws. isspace c \<Longrightarrow> split_acc cur (s @ ws) = split_acc cur s"
  by (induction s arbitrary: cur) (auto simp: split_acc_spaces)

lemma str_split_strip: "str_split (str_strip s) = str_split s"
proof -
  let ?t = "dropWhile isspace s"
  have "?t = rev (dropWhile isspace (rev ?t)) @ rev (takeWhile isspace (rev ?t))"
    by (metis rev_append rev_rev_ident takeWhile_dropWhile_id)
  moreover have "\<forall>c \<in> set (rev (takeWhile isspace (rev ?t))). isspace c"
    by (auto dest: set_takeWhileD)
  ultimately have "split_acc [] ?t = split_acc [] (rev (dropWhile isspace (rev ?t)))"
    by (metis split_acc_trailing)
  then show ?thesis
    by (simp add: str_split_def str_strip_def split_acc_leading)
qed

text \<open>A call of \<open>add_sub_repo_as_remote\<close> that comes back ran two commands that succeeded.\<close>

lemma add_sub_repo_as_remote_Inr:
  assumes "add_sub_repo_as_remote os md sd n st = (Inr (), st1)"
  obtains out err w out2 err2 where
    "subprocess_run os (world st) ''git remote'' (Some md) = (Completed 0 out err, w)"
    "subprocess_run os w
       ((if n \<in> set (str_split out) then ''git remote set-url '' else ''git remote add '')
          @ n @ '' '' @ os_path_abspath os sd) (Some md) = (Completed 0 out2 err2, world st1)"
  using assms
  by (auto simp: add_sub_repo_as_remote_def run_command_def prog_defs Let_def str_split_strip
      split: prod.splits proc_result.splits if_splits)

lemma add_sub_repo_as_remote_commands:
  assumes "subprocess_run os (world st) ''git remote'' (Some md) = (Completed 0 out err, w)"
  shows "issued (snd (add_sub_repo_as_remote os md sd n st)) =
     issued st @
       [(''git remote'', Some md, Completed 0 out err),
        ((if n \<in> set (str_split out) then ''git remote set-url '' else ''git remote add '')
           @ n @ '' '' @ os_path_abspath os sd, Some md,
         fst (subprocess_run os w
           ((if n \<in> set (str_split out) then ''git remote set-url '' else ''git remote add '')
              @ n @ '' '' @ os_path_abspath os sd) (Some md)))]"
  using assms
  by (auto simp: add_sub_repo_as_remote_def run_command_def prog_defs Let_def str_split_strip
      split: prod.splits proc_result.splits if_splits)

text \<open>Lists of remotes, as pairs of a name and a URL.\<close>

lemma filter_name_absent:
  "n \<notin> fst ` set xs \<Longrightarrow> filter (\<lambda>(k, v). k = n) (map (\<lambda>(k, v). if k = n then (k, p) else (k, v)) xs) = []"
  by (induction xs) auto

lemma filter_name_set_url:
  "distinct (map fst xs) \<Longrightarrow> n \<in> fst ` set xs \<Longrightarrow>
   filter (\<lambda>(k, v). k = n) (map (\<lambda>(k, v). if k = n then (k, p) else (k, v)) xs) = [(n, p)]"
proof (induction xs)
  case Nil
  then show ?case by simp
next
  case (Cons x xs)
  obtain k v where x: "x = (k, v)" by (cases x)
  show ?case
  proof (cases "k = n")
    case True
    with Cons.prems x have "n \<notin> fst ` set xs" by auto
    with True x show ?thesis by (simp add: filter_name_absent)
  next
    case False
    with Cons x show ?thesis by auto
  qed
qed

lemma set_url_fixed:
  "\<forall>(k, v) \<in> set xs. k = n \<longrightarrow> v = p \<Longrightarrow>
   map (\<lambda>(k, v). if k = n then (k, p) else (k, v)) xs = xs"
  by (induction xs) auto

lemma set_url_again:
  assumes f: "filter (\<lambda>(k, v). k = n) xs = [(n, p)]"
  shows "map (\<lambda>(k, v). if k = n then (k, p) else (k, v)) xs = xs"
proof (rule set_url_fixed, clarify)
  fix v assume "(n, v) \<in> set xs"
  then have "(n, v) \<in> set (filter (\<lambda>(k, v). k = n) xs)" by simp
  with f show "v = p" by simp
qed

lemma filter_name_present:
  assumes f: "filter (\<lambda>(k, v). k = n) xs = [(n, p)]"
  shows "n \<in> fst ` set xs"
proof -
  have "(n, p) \<in> set (filter (\<lambda>(k, v). k = n) xs)" by (simp add: f)
  then have "(n, p) \<in> set xs" by simp
  then show ?thesis by force
qed

text \<open>
  One call under the contract of the three \<open>git remote\<close> commands, stated for the worlds
  in which \<open>good\<close> holds and for the remotes \<open>remotes_of\<close> reads off a world.
\<close>

lemma filter_name_none: "n \<notin> fst ` set xs \<Longrightarrow> filter (\<lambda>(k, v). k = n) xs = []"
  by (induction xs) auto

lemma add_sub_repo_as_remote_step:
  assumes listing: "\<forall>w out err w'. good w \<and>
        subprocess_run os w ''git remote'' (Some md) = (Completed 0 out err, w') \<longrightarrow>
        good w' \<and> remotes_of w' = remotes_of w \<and>
        (n \<in> set (str_split out)) = (n \<in> fst ` set (remotes_of w))"
    and adding: "\<forall>w out err w'. good w \<and>
        subprocess_run os w (''git remote add '' @ n @ '' '' @ p) (Some md) = (Completed 0 out err, w') \<longrightarrow>
        good w' \<and> remotes_of w' = remotes_of w @ [(n, p)]"
    and updating: "\<forall>w out err w'. good w \<and>
        subprocess_run os w (''git remote set-url '' @ n @ '' '' @ p) (Some md) = (Completed 0 out err, w') \<longrightarrow>
        good w' \<and> remotes_of w' = map (\<lambda>(k, v). if k = n then (k, p) else (k, v)) (remotes_of w)"
    and unique: "\<forall>w. good w \<longrightarrow> distinct (map fst (remotes_of w))"
    and start: "good (world st)"
    and p: "p = os_path_abspath os sd"
    and run: "add_sub_repo_as_remote os md sd n st = (Inr (), st1)"
  shows "good (world st1) \<and> filter (\<lambda>(k, v). k = n) (remotes_of (world st1)) = [(n, p)] \<and>
         (n \<in> fst ` set (remotes_of (world st)) \<longrightarrow>
            remotes_of (world st1) =
              map (\<lambda>(k, v). if k = n then (k, p) else (k, v)) (remotes_of (world st)))"
proof -
  from run obtain out err w out2 err2 where
    c1: "subprocess_run os (world st) ''git remote'' (Some md) = (Completed 0 out err, w)" and
    c2: "subprocess_run os w
       ((if n \<in> set (str_split out) then ''git remote set-url '' else ''git remote add '')
          @ n @ '' '' @ p) (Some md) = (Completed 0 out2 err2, world st1)"
    unfolding p by (rule add_sub_repo_as_remote_Inr)
  note l = listing [rule_format, OF conjI, OF start c1]
  have w: "good w" "remotes_of w = remotes_of (world st)"
    and tok: "(n \<in> set (str_split out)) = (n \<in> fst ` set (remotes_of (world st)))"
    by (rule l [THEN conjunct1], rule l [THEN conjunct2, THEN conjunct1],
        rule l [THEN conjunct2, THEN conjunct2])
  from unique [rule_format, OF start] have d: "distinct (map fst (remotes_of (world st)))" .
  show ?thesis
  proof (cases "n \<in> set (str_split out)")
    case True
    with c2 have "subprocess_run os w (''git remote set-url '' @ n @ '' '' @ p) (Some md) =
        (Completed 0 out2 err2, world st1)"
      by simp
    then have u: "good (world st1) \<and>
      remotes_of (world st1) = map (\<lambda>(k, v). if k = n then (k, p) else (k, v)) (remotes_of w)"
      by (rule updating [rule_format, OF conjI, OF w(1)])
    then have "good (world st1)"
      "remotes_of (world st1) = map (\<lambda>(k, v). if k = n then (k, p) else (k, v)) (remotes_of w)"
      by (rule conjunct1, rule conjunct2)
    with True tok d show ?thesis
      by (simp add: filter_name_set_url w(2))
  next
    case False
    with c2 have "subprocess_run os w (''git remote add '' @ n @ '' '' @ p) (Some md) =
        (Completed 0 out2 err2, world st1)"
      by simp
    then have u: "good (world st1) \<and> remotes_of (world st1) = remotes_of w @ [(n, p)]"
      by (rule adding [rule_format, OF conjI, OF w(1)])
    then have "good (world st1)" "remotes_of (world st1) = remotes_of w @ [(n, p)]"
      by (rule conjunct1, rule conjunct2)
    with False tok show ?thesis
      by (simp add: filter_name_none w(2))
  qed
qed

text \<open>
  Claim C5. \<open>add_sub_repo_as_remote\<close> lists the remotes of the main repository and
  then issues one more command on the absolute path of the sub directory: \<open>git remote
  set-url\<close> when the remote name is one of the words of the listing (a whole word, not a
  part of one), \<open>git remote add\<close> otherwise. Let the three \<open>git remote\<close> commands do
  what they do in the real tool, in the worlds \<open>good\<close> holds for: listing prints the
  names of the remotes and changes none, adding appends the entry, updating replaces the
  URL of the entries of that name, and names are unique. Then after two calls that came
  back there is exactly one remote of that name, it points at the absolute path, and the
  second call left the remotes as the first call had them.
\<close>

theorem add_sub_repo_as_remote_idempotent:
  "(subprocess_run os (world st) ''git remote'' (Some md) = (Completed 0 out0 err0, w0) \<longrightarrow>
      issued (snd (add_sub_repo_as_remote os md sd n st)) =
        issued st @
          [(''git remote'', Some md, Completed 0 out0 err0),
           ((if n \<in> set (str_split out0) then ''git remote set-url '' else ''git remote add '')
              @ n @ '' '' @ os_path_abspath os sd, Some md,
            fst (subprocess_run os w0
              ((if n \<in> set (str_split out0) then ''git remote set-url '' else ''git remote add '')
                 @ n @ '' '' @ os_path_abspath os sd) (Some md)))]) \<and>
   ((\<forall>w out err w'. good w \<and>
        subprocess_run os w ''git remote'' (Some md) = (Completed 0 out err, w') \<longrightarrow>
        good w' \<and> remotes_of w' = remotes_of w \<and>
        (n \<in> set (str_split out)) = (n \<in> fst ` set (remotes_of w))) \<and>
    (\<forall>w out err w'. good w \<and>
        subprocess_run os w (''git remote add '' @ n @ '' '' @ os_path_abspath os sd) (Some md) =
          (Completed 0 out err, w') \<longrightarrow>
        good w' \<and> remotes_of w' = remotes_of w @ [(n, os_path_abspath os sd)]) \<and>
    (\<forall>w out err w'. good w \<and>
        subprocess_run os w (''git remote set-url '' @ n @ '' '' @ os_path_abspath os sd) (Some md) =
          (Completed 0 out err, w') \<longrightarrow>
        good w' \<and>
        remotes_of w' =
          map (\<lambda>(k, v). if k = n then (k, os_path_abspath os sd) else (k, v)) (remotes_of w)) \<and>
    (\<forall>w. good w \<longrightarrow> distinct (map fst (remotes_of w))) \<and>
    good (world st) \<and>
    add_sub_repo_as_remote os md sd n st = (Inr (), st1) \<and>
    add_sub_repo_as_remote os md sd n st1 = (Inr (), st2)
    \<longrightarrow> filter (\<lambda>(k, v). k = n) (remotes_of (world st2)) = [(n, os_path_abspath os sd)] \<and>
        remotes_of (world st2) = remotes_of (world st1))"
proof (intro conjI impI)
  assume "subprocess_run os (world st) ''git remote'' (Some md) = (Completed 0 out0 err0, w0)"
  then show "issued (snd (add_sub_repo_as_remote os md sd n st)) =
        issued st @
          [(''git remote'', Some md, Completed 0 out0 err0),
           ((if n \<in> set (str_split out0) then ''git remote set-url '' else ''git remote add '')
              @ n @ '' '' @ os_path_abspath os sd, Some md,
            fst (subprocess_run os w0
              ((if n \<in> set (str_split out0) then ''git remote set-url '' else ''git remote add '')
                 @ n @ '' '' @ os_path_abspath os sd) (Some md)))]"
    by (rule add_sub_repo_as_remote_commands)
next
  let ?p = "os_path_abspath os sd"
  assume a: "(\<forall>w out err w'. good w \<and>
        subprocess_run os w ''git remote'' (Some md) = (Completed 0 out err, w') \<longrightarrow>
        good w' \<and> remotes_of w' = remotes_of w \<and>
        (n \<in> set (str_split out)) = (n \<in> fst ` set (remotes_of w))) \<and>
    (\<forall>w out err w'. good w \<and>
        subprocess_run os w (''git remote add '' @ n @ '' '' @ ?p) (Some md) =
          (Completed 0 out err, w') \<longrightarrow>
        good w' \<and> remotes_of w' = remotes_of w @ [(n, ?p)]) \<and>
    (\<forall>w out err w'. good w \<and>
        subprocess_run os w (''git remote set-url '' @ n @ '' '' @ ?p) (Some md) =
          (Completed 0 out err, w') \<longrightarrow>
        good w' \<and>
        remotes_of w' = map (\<lambda>(k, v). if k = n then (k, ?p) else (k, v)) (remotes_of w)) \<and>
    (\<forall>w. good w \<longrightarrow> distinct (map fst (remotes_of w))) \<and>
    good (world st) \<and>
    add_sub_repo_as_remote os md sd n st = (Inr (), st1) \<and>
    add_sub_repo_as_remote os md sd n st1 = (Inr (), st2)"
  note listing = a [THEN conjunct1]
  note adding = a [THEN conjunct2, THEN conjunct1]
  note updating = a [THEN conjunct2, THEN conjunct2, THEN conjunct1]
  note unique = a [THEN conjunct2, THEN conjunct2, THEN conjunct2, THEN conjunct1]
  note start = a [THEN conjunct2, THEN conjunct2, THEN conjunct2, THEN conjunct2, THEN conjunct1]
  note first = a [THEN conjunct2, THEN conjunct2, THEN conjunct2, THEN conjunct2, THEN conjunct2,
    THEN conjunct1]
  note second = a [THEN conjunct2, THEN conjunct2, THEN conjunct2, THEN conjunct2, THEN conjunct2,
    THEN conjunct2]
  note step1 = add_sub_repo_as_remote_step [OF listing adding updating unique start refl first]
  have one: "good (world st1)" "filter (\<lambda>(k, v). k = n) (remotes_of (world st1)) = [(n, ?p)]"
    by (rule step1 [THEN conjunct1], rule step1 [THEN conjunct2, THEN conjunct1])
  from one(2) have present: "n \<in> fst ` set (remotes_of (world st1))"
    by (rule filter_name_present)
  note step2 = add_sub_repo_as_remote_step [OF listing adding updating unique one(1) refl second]
  have two: "filter (\<lambda>(k, v). k = n) (remotes_of (world st2)) = [(n, ?p)]"
    "remotes_of (world st2) =
       map (\<lambda>(k, v). if k = n then (k, ?p) else (k, v)) (remotes_of (world st1))"
    by (rule step2 [THEN conjunct2, THEN conjunct1],
        rule step2 [THEN conjunct2, THEN conjunct2, THEN mp, OF present])
  from two(2) set_url_again [OF one(2)] have "remotes_of (world st2) = remotes_of (world st1)"
    by simp
  with two(1) show "filter (\<lambda>(k, v). k = n) (remotes_of (world st2)) = [(n, ?p)]"
    and "remotes_of (world st2) = remotes_of (world st1)"
    by simp_all
qed

text \<open>
  In the simulated environment the main repository has the remotes \<open>origin\<close> and
  \<open>subrepo2\<close>. The name \<open>subrepo\<close> is part of a word of the listing but not a word of
  it, so the first call adds the remote; the second call finds it and updates it, and the
  remotes stay as they were.
\<close>

theorem add_sub_repo_as_remote_idempotent_witness:
  "subprocess_run demo_os (world demo_linkable) ''git remote'' (Some ''main_repo'') =
     (Completed 0 (''origin'' @ [CHR 0x0A] @ ''subrepo2'' @ [CHR 0x0A]) [], world demo_linkable) \<and>
   ''subrepo'' \<notin> set (str_split (''origin'' @ [CHR 0x0A] @ ''subrepo2'' @ [CHR 0x0A])) \<and>
   map ev_command (drop (length (issued demo_linkable)) (issued demo_relinked)) =
     [(''git remote'', Some ''main_repo''),
      (''git remote add subrepo /work/sub_repo'', Some ''main_repo''),
      (''git remote'', Some ''main_repo''),
      (''git remote set-url subrepo /work/sub_repo'', Some ''main_repo'')] \<and>
   issued (snd (add_sub_repo_as_remote demo_os ''main_repo'' ''sub_repo'' ''subrepo'' demo_linkable)) =
     issued demo_linkable @
       [(''git remote'', Some ''main_repo'',
         Completed 0 (''origin'' @ [CHR 0x0A] @ ''subrepo2'' @ [CHR 0x0A]) []),
        (''git remote add '' @ ''subrepo'' @ '' '' @ os_path_abspath demo_os ''sub_repo'',
         Some ''main_repo'',
         fst (subprocess_run demo_os (world demo_linkable)
           (''git remote add '' @ ''subrepo'' @ '' '' @ os_path_abspath demo_os ''sub_repo'')
           (Some ''main_repo'')))] \<and>
   add_sub_repo_as_remote demo_os ''main_repo'' ''sub_repo'' ''subrepo'' demo_linkable =
     (Inr (), demo_linked) \<and>
   add_sub_repo_as_remote demo_os ''main_repo'' ''sub_repo'' ''subrepo'' demo_linked =
     (Inr (), demo_relinked) \<and>
   filter (\<lambda>(k, v). k = ''subrepo'') (demo_remotes_of (world demo_relinked)) =
     [(''subrepo'', os_path_abspath demo_os ''sub_repo'')] \<and>
   demo_remotes_of (world demo_relinked) = demo_remotes_of (world demo_linked) \<and>
   os_path_abspath demo_os ''sub_repo'' = ''/work/sub_repo''"
proof -
  let ?W0 = "world demo_linkable"
  let ?W1 = "world demo_linked"
  let ?md = "Some ''main_repo''"
  let ?p = "os_path_abspath demo_os ''sub_repo''"
  let ?out0 = "''origin'' @ [CHR 0x0A] @ ''subrepo2'' @ [CHR 0x0A]"
  let ?out1 = "''origin'' @ [CHR 0x0A] @ ''subrepo2'' @ [CHR 0x0A] @ ''subrepo'' @ [CHR 0x0A]"
  let ?add = "''git remote add '' @ ''subrepo'' @ '' '' @ ?p"
  let ?upd = "''git remote set-url '' @ ''subrepo'' @ '' '' @ ?p"
  let ?good = "\<lambda>w. w = ?W0 \<or> w = ?W1"
  have L0: "subprocess_run demo_os ?W0 ''git remote'' ?md = (Completed 0 ?out0 [], ?W0)"
    by code_simp
  have L1: "subprocess_run demo_os ?W1 ''git remote'' ?md = (Completed 0 ?out1 [], ?W1)"
    by code_simp
  have T0: "(''subrepo'' \<in> set (str_split ?out0)) = (''subrepo'' \<in> set (map fst (demo_remotes_of ?W0)))"
    by code_simp
  have T1: "(''subrepo'' \<in> set (str_split ?out1)) = (''subrepo'' \<in> set (map fst (demo_remotes_of ?W1)))"
    by code_simp
  have N0: "''subrepo'' \<notin> set (str_split ?out0)"
    by code_simp
  have A0: "subprocess_run demo_os ?W0 ?add ?md = (Completed 0 [] [], ?W1)"
    by code_simp
  have A1: "subprocess_run demo_os ?W1 ?add ?md = (Completed 3 [] ''error: remote already exists'', ?W1)"
    by code_simp
  have U0: "subprocess_run demo_os ?W0 ?upd ?md = (Completed 2 [] ''error: No such remote'', ?W0)"
    by code_simp
  have U1: "subprocess_run demo_os ?W1 ?upd ?md = (Completed 0 [] [], ?W1)"
    by code_simp
  have RA: "demo_remotes_of ?W1 = demo_remotes_of ?W0 @ [(''subrepo'', ?p)]"
    by code_simp
  have RU: "demo_remotes_of ?W1 =
      map (\<lambda>(k, v). if k = ''subrepo'' then (k, ?p) else (k, v)) (demo_remotes_of ?W1)"
    by code_simp
  have D0: "distinct (map fst (demo_remotes_of ?W0))" by code_simp
  have D1: "distinct (map fst (demo_remotes_of ?W1))" by code_simp
  have r1: "fst (add_sub_repo_as_remote demo_os ''main_repo'' ''sub_repo'' ''subrepo'' demo_linkable) = Inr ()"
    by code_simp
  have r2: "fst (add_sub_repo_as_remote demo_os ''main_repo'' ''sub_repo'' ''subrepo'' demo_linked) = Inr ()"
    by code_simp
  have first: "add_sub_repo_as_remote demo_os ''main_repo'' ''sub_repo'' ''subrepo'' demo_linkable =
      (Inr (), demo_linked)"
    unfolding demo_linked_def using r1 by (simp add: prod_eq_iff)
  have second: "add_sub_repo_as_remote demo_os ''main_repo'' ''sub_repo'' ''subrepo'' demo_linked =
      (Inr (), demo_relinked)"
    unfolding demo_relinked_def using r2 by (simp add: prod_eq_iff)
  have cmds: "map ev_command (drop (length (issued demo_linkable)) (issued demo_relinked)) =
     [(''git remote'', Some ''main_repo''),
      (''git remote add subrepo /work/sub_repo'', Some ''main_repo''),
      (''git remote'', Some ''main_repo''),
      (''git remote set-url subrepo /work/sub_repo'', Some ''main_repo'')]"
    by code_simp
  have abs: "?p = ''/work/sub_repo''" by code_simp
  have listing: "\<forall>w out err w'. ?good w \<and>
        subprocess_run demo_os w ''git remote'' ?md = (Completed 0 out err, w') \<longrightarrow>
        ?good w' \<and> demo_remotes_of w' = demo_remotes_of w \<and>
        (''subrepo'' \<in> set (str_split out)) = (''subrepo'' \<in> fst ` set (demo_remotes_of w))"
  proof (intro allI impI, elim conjE)
    fix w out err w'
    assume g: "w = ?W0 \<or> w = ?W1"
      and c: "subprocess_run demo_os w ''git remote'' ?md = (Completed 0 out err, w')"
    from g show "?good w' \<and> demo_remotes_of w' = demo_remotes_of w \<and>
        (''subrepo'' \<in> set (str_split out)) = (''subrepo'' \<in> fst ` set (demo_remotes_of w))"
    proof
      assume w: "w = ?W0"
      from c have "(Completed 0 ?out0 [], ?W0) = (Completed 0 out err, w')" unfolding w L0 .
      then have "out = ?out0" "w' = ?W0" by simp_all
      with w T0 show ?thesis by (simp only: set_map) simp
    next
      assume w: "w = ?W1"
      from c have "(Completed 0 ?out1 [], ?W1) = (Completed 0 out err, w')" unfolding w L1 .
      then have "out = ?out1" "w' = ?W1" by simp_all
      with w T1 show ?thesis by (simp only: set_map) simp
    qed
  qed
  have adding: "\<forall>w out err w'. ?good w \<and>
        subprocess_run demo_os w ?add ?md = (Completed 0 out err, w') \<longrightarrow>
        ?good w' \<and> demo_remotes_of w' = demo_remotes_of w @ [(''subrepo'', ?p)]"
  proof (intro allI impI, elim conjE)
    fix w out err w'
    assume g: "w = ?W0 \<or> w = ?W1"
      and c: "subprocess_run demo_os w ?add ?md = (Completed 0 out err, w')"
    from g show "?good w' \<and> demo_remotes_of w' = demo_remotes_of w @ [(''subrepo'', ?p)]"
    proof
      assume w: "w = ?W0"
      from c have "(Completed 0 [] [], ?W1) = (Completed 0 out err, w')" unfolding w A0 .
      then have "w' = ?W1" by simp
      with w RA show ?thesis by simp
    next
      assume w: "w = ?W1"
      from c have "(Completed 3 [] ''error: remote already exists'', ?W1) = (Completed 0 out err, w')"
        unfolding w A1 .
      then show ?thesis by simp
    qed
  qed
  have updating: "\<forall>w out err w'. ?good w \<and>
        subprocess_run demo_os w ?upd ?md = (Completed 0 out err, w') \<longrightarrow>
        ?good w' \<and>
        demo_remotes_of w' =
          map (\<lambda>(k, v). if k = ''subrepo'' then (k, ?p) else (k, v)) (demo_remotes_of w)"
  proof (intro allI impI, elim conjE)
    fix w out err w'
    assume g: "w = ?W0 \<or> w = ?W1"
      and c: "subprocess_run demo_os w ?upd ?md = (Completed 0 out err, w')"
    from g show "?good w' \<and>
        demo_remotes_of w' =
          map (\<lambda>(k, v). if k = ''subrepo'' then (k, ?p) else (k, v)) (demo_remotes_of w)"
    proof
      assume w: "w = ?W0"
      from c have "(Completed 2 [] ''error: No such remote'', ?W0) = (Completed 0 out err, w')"
        unfolding w U0 .
      then show ?thesis by simp
    next
      assume w: "w = ?W1"
      from c have "(Completed 0 [] [], ?W1) = (Completed 0 out err, w')" unfolding w U1 .
      then have w': "w' = ?W1" by simp
      show ?thesis unfolding w w' using RU by simp
    qed
  qed
  have unique: "\<forall>w. ?good w \<longrightarrow> distinct (map fst (demo_remotes_of w))"
    using D0 D1 by blast
  have start: "?good (world demo_linkable)" by simp
  note t = add_sub_repo_as_remote_idempotent [where os = demo_os and st = demo_linkable
      and md = "''main_repo''" and sd = "''sub_repo''" and n = "''subrepo''"
      and ?out0.0 = ?out0 and ?err0.0 = "[]" and ?w0.0 = ?W0
      and good = ?good and remotes_of = demo_remotes_of and ?st1.0 = demo_linked
      and ?st2.0 = demo_relinked]
  from t [THEN conjunct1, THEN mp, OF L0] N0
  have i: "issued (snd (add_sub_repo_as_remote demo_os ''main_repo'' ''sub_repo'' ''subrepo'' demo_linkable)) =
     issued demo_linkable @
       [(''git remote'', Some ''main_repo'', Completed 0 ?out0 []),
        (?add, Some ''main_repo'', fst (subprocess_run demo_os ?W0 ?add (Some ''main_repo'')))]"
    by (simp only: if_False)
  from t [THEN conjunct2, THEN mp,
      OF conjI [OF listing conjI [OF adding conjI [OF updating conjI [OF unique
        conjI [OF start conjI [OF first second]]]]]]]
  have "filter (\<lambda>(k, v). k = ''subrepo'') (demo_remotes_of (world demo_relinked)) = [(''subrepo'', ?p)] \<and>
      demo_remotes_of (world demo_relinked) = demo_remotes_of (world demo_linked)" .
  with L0 N0 cmds i first second abs show ?thesis by blast
qed

end
